theory Spec2Isabelle
  imports Main
begin

section \<open>Data model\<close>

text \<open>
  The moderation-report code lives in three route files and one model file:
  the validated content-report router (\<^verbatim>\<open>src/unnamed/part_000\<close>), the admin router
  (\<^verbatim>\<open>src/unnamed/part_001\<close>), the universal report router (\<^verbatim>\<open>src/unnamed/part_002\<close>) and
  \<^verbatim>\<open>src/models/ContentReport.js\<close>. The models \<^verbatim>\<open>Reports.js\<close>, \<^verbatim>\<open>User.js\<close> and
  \<^verbatim>\<open>Post.js\<close> are imported by the routers and are not part of the sources.

  Modelling conventions.
  \<^item> An ObjectId is a number below \<open>16 ^ 24\<close>, of type \<open>oid\<close>; its text is 24 hexadecimal
    digits. \<^verbatim>\<open>req.user.id\<close> is the text of the user's ObjectId in lower case, as the
    driver prints it.
  \<^item> The fields \<^verbatim>\<open>targetId\<close> of a body and the identifiers in a path are absent (\<open>None\<close>)
    or a well-formed identifier, so \<^verbatim>\<open>isMongoId\<close> holds by typing and no cast of them
    fails. The field \<^verbatim>\<open>reportedUserId\<close> is the raw string of the body: the user-report
    handler compares it as text before Mongoose casts it.
  \<^item> Every other body field the handlers read is absent (\<open>None\<close>) or a string; a character
    is a code point below 256. JavaScript truthiness of such a field is \<open>truthy\<close>.
  \<^item> \<^verbatim>\<open>new Date()\<close> and \<^verbatim>\<open>Date.now()\<close> read the clock \<open>now\<close> of the request's environment
    (milliseconds); the \<^verbatim>\<open>_id\<close> of a new document is \<open>newId\<close> of the environment.
  \<^item> A handler returns the response and the store it leaves behind.
\<close>

type_synonym oid = nat
type_synonym time = int

datatype response = Response (code: nat) (message: string)

text \<open>The \<^verbatim>\<open>severity\<close> field of a body: a tier name on content reports, a number on user reports.\<close>

datatype sev = SevStr string | SevNum int

record metadata =
  reporterIP :: string
  reporterUserAgent :: "string option"
  timestamp :: "time option"

text \<open>An element of \<^verbatim>\<open>actionsTaken\<close>, with the fields the routers write.\<close>

record action_entry =
  action :: string
  areason :: string
  takenBy :: "oid option"
  takenAt :: time

text \<open>\<^verbatim>\<open>contentReportSchema\<close> of \<^verbatim>\<open>src/models/ContentReport.js\<close>.\<close>

record content_report =
  cid :: oid
  reporter :: oid
  targetType :: string
  targetId :: oid
  reportType :: string
  reason :: string
  additionalInfo :: "string option"
  severity :: string
  status :: string
  priority :: string
  actionsTaken :: "action_entry list"
  cmetadata :: metadata

text \<open>
  A document of the \<^verbatim>\<open>Report\<close> model (\<^verbatim>\<open>models/Reports.js\<close>), with the fields the
  routers read and write.
\<close>

record report =
  rid :: oid
  rreporter :: oid
  reportedUser :: oid
  rreportType :: string
  rreason :: string
  evidence :: "string list"
  category :: string
  rseverity :: sev
  rstatus :: string
  adminNotes :: "string option"
  ractionsTaken :: "action_entry list"
  rmetadata :: metadata

text \<open>A document of the \<^verbatim>\<open>User\<close> model, with the fields the routers read and write.\<close>

record user =
  uid :: oid
  username :: string
  role :: string
  ustatus :: string
  suspendedUntil :: "time option"

text \<open>
  The store. \<open>posts\<close> and \<open>reels\<close> hold the identifiers of the documents of the
  \<^verbatim>\<open>Post\<close> and \<^verbatim>\<open>Reel\<close> collections. \<open>userUpdateCalls\<close> is instrumentation: one entry
  (target, status written, expiry written) for each \<^verbatim>\<open>User.findByIdAndUpdate\<close> call issued.
\<close>

record state =
  users :: "user list"
  posts :: "oid list"
  reels :: "oid list"
  contentReports :: "content_report list"
  reports :: "report list"
  userUpdateCalls :: "(oid \<times> string \<times> time option) list"

record env =
  now :: time
  newId :: oid

record body =
  b_type :: "string option"
  b_targetId :: "oid option"
  b_reason :: "string option"
  b_additionalInfo :: "string option"
  b_severity :: "sev option"
  b_reportedUserId :: "string option"
  b_reportType :: "string option"
  b_evidence :: "string list option"
  b_category :: "string option"

record request =
  user_id :: oid
  ip :: string
  userAgent :: "string option"
  rbody :: body

section \<open>Strings and validators\<close>

definition truthy :: "string option \<Rightarrow> bool" where
  "truthy v = (case v of None \<Rightarrow> False | Some s \<Rightarrow> s \<noteq> [])"

text \<open>\<^verbatim>\<open>a || b\<close> on an optional string and a string.\<close>

definition orElse :: "string option \<Rightarrow> string \<Rightarrow> string" where
  "orElse v d = (case v of None \<Rightarrow> d | Some s \<Rightarrow> if s = [] then d else s)"

text \<open>The class \<^verbatim>\<open>\s\<close> on code points below 256: tab to carriage return, space, no-break space.\<close>

definition isSpace :: "char \<Rightarrow> bool" where
  "isSpace c = (of_char c \<in> set [9, 10, 11, 12, 13, 32, 160 :: nat])"

definition trim :: "string \<Rightarrow> string" where
  "trim s = rev (dropWhile isSpace (rev (dropWhile isSpace s)))"

definition toLowerChar :: "char \<Rightarrow> char" where
  "toLowerChar c =
     (let n = (of_char c :: nat)
      in if (65 \<le> n \<and> n \<le> 90) \<or> (192 \<le> n \<and> n \<le> 222 \<and> n \<noteq> 215)
         then char_of (n + 32) else c)"

definition toLowerCase :: "string \<Rightarrow> string" where
  "toLowerCase s = map toLowerChar s"

text \<open>\<^verbatim>\<open>s.replace(/\s+/g, '_')\<close>: every maximal run of white space becomes one underscore.\<close>

function replaceSpaces :: "string \<Rightarrow> string" where
  "replaceSpaces [] = []"
| "replaceSpaces (c # cs) =
     (if isSpace c then CHR ''_'' # replaceSpaces (dropWhile isSpace cs)
      else c # replaceSpaces cs)"
  by pat_completeness auto
termination
  by (relation "measure length") (auto simp: length_dropWhile_le less_Suc_eq_le)

definition contentTypes :: "string list" where
  "contentTypes = [''post'', ''reel'', ''story'', ''comment'']"

definition reasonCodes :: "string list" where
  "reasonCodes =
     [''inappropriate_content'', ''harassment'', ''spam'', ''hate_speech'', ''violence'',
      ''sexual_content'', ''self_harm'', ''bullying'', ''misinformation'',
      ''copyright_violation'', ''privacy_violation'', ''scam'', ''other'']"

definition tiers :: "string list" where
  "tiers = [''low'', ''medium'', ''high'', ''urgent'']"

definition statuses :: "string list" where
  "statuses = [''pending'', ''under_review'', ''resolved'', ''dismissed'', ''escalated'']"

text \<open>\<^verbatim>\<open>body(f).isIn(xs)\<close> on a field that is not optional: an absent field fails.\<close>

definition isIn :: "string option \<Rightarrow> string list \<Rightarrow> bool" where
  "isIn v xs = (case v of None \<Rightarrow> False | Some s \<Rightarrow> s \<in> set xs)"

text \<open>
  \<^verbatim>\<open>body('severity').optional().isIn(tiers)\<close>: absent passes; a number is compared through
  its decimal text, which is no tier name.
\<close>

definition severityOk :: "sev option \<Rightarrow> bool" where
  "severityOk v =
     (case v of None \<Rightarrow> True | Some (SevStr s) \<Rightarrow> s \<in> set tiers | Some (SevNum n) \<Rightarrow> False)"

text \<open>\<^verbatim>\<open>body('additionalInfo').optional().isString().trim().isLength({ max: 500 })\<close>.\<close>

definition additionalInfoOk :: "string option \<Rightarrow> bool" where
  "additionalInfoOk v = (case v of None \<Rightarrow> True | Some s \<Rightarrow> length (trim s) \<le> 500)"

text \<open>The validation chain of the content-report route: \<open>True\<close> when \<^verbatim>\<open>errors.isEmpty()\<close>.\<close>

definition contentReportValid :: "body \<Rightarrow> bool" where
  "contentReportValid b =
     (isIn (b_type b) contentTypes \<and> b_targetId b \<noteq> None \<and> isIn (b_reason b) reasonCodes
      \<and> additionalInfoOk (b_additionalInfo b) \<and> severityOk (b_severity b))"

text \<open>The sanitizer \<^verbatim>\<open>trim()\<close> of the chain rewrites \<^verbatim>\<open>req.body.additionalInfo\<close>.\<close>

definition sanitized :: "body \<Rightarrow> body" where
  "sanitized b = b\<lparr>b_additionalInfo := map_option trim (b_additionalInfo b)\<rparr>"

section \<open>The text of an ObjectId\<close>

text \<open>\<^verbatim>\<open>_id.toString()\<close>: 24 hexadecimal digits in lower case, the most significant first.\<close>

definition hexDigit :: "nat \<Rightarrow> char" where
  "hexDigit d = (if d < 10 then char_of (48 + d) else char_of (87 + d))"

fun toHex :: "nat \<Rightarrow> nat \<Rightarrow> string" where
  "toHex 0 n = []"
| "toHex (Suc k) n = toHex k (n div 16) @ [hexDigit (n mod 16)]"

definition toHexString :: "oid \<Rightarrow> string" where
  "toHexString n = toHex 24 n"

text \<open>The value of a hexadecimal digit, of either case.\<close>

definition hexValue :: "char \<Rightarrow> nat option" where
  "hexValue c =
     (let n = (of_char c :: nat)
      in if 48 \<le> n \<and> n \<le> 57 then Some (n - 48)
         else if 97 \<le> n \<and> n \<le> 102 then Some (n - 87)
         else if 65 \<le> n \<and> n \<le> 70 then Some (n - 55)
         else None)"

definition isHex :: "char \<Rightarrow> bool" where
  "isHex c = (hexValue c \<noteq> None)"

fun fromHex :: "nat \<Rightarrow> string \<Rightarrow> nat option" where
  "fromHex a [] = Some a"
| "fromHex a (c # cs) =
     (case hexValue c of None \<Rightarrow> None | Some d \<Rightarrow> fromHex (16 * a + d) cs)"

section \<open>The ContentReport collection\<close>

text \<open>
  \<^verbatim>\<open>severity = 'medium'\<close> in the destructuring: the default applies to an absent field only.
  Mongoose casts a number to its decimal text, which the schema's enum refuses.
\<close>

definition severityText :: "sev option \<Rightarrow> string option" where
  "severityText v =
     (case v of None \<Rightarrow> Some ''medium'' | Some (SevStr s) \<Rightarrow> Some s | Some (SevNum n) \<Rightarrow> None)"

text \<open>
  Validation on \<^verbatim>\<open>save\<close> by \<^verbatim>\<open>contentReportSchema\<close>: enums, required strings, lengths.
\<close>

definition contentReportSchema :: "content_report \<Rightarrow> bool" where
  "contentReportSchema r =
     (targetType r \<in> set contentTypes \<and> reportType r \<in> set reasonCodes
      \<and> reason r \<noteq> [] \<and> length (reason r) \<le> 1000
      \<and> (case additionalInfo r of None \<Rightarrow> True | Some s \<Rightarrow> length s \<le> 500)
      \<and> severity r \<in> set tiers \<and> status r \<in> set statuses \<and> priority r \<in> set tiers)"

text \<open>
  \<^verbatim>\<open>new ContentReport({...})\<close>: the fields the routers pass, and the schema's defaults for
  \<^verbatim>\<open>status\<close> (pending), \<^verbatim>\<open>priority\<close> (medium) and \<^verbatim>\<open>actionsTaken\<close> (empty).
\<close>

definition newContentReport ::
  "env \<Rightarrow> request \<Rightarrow> string \<Rightarrow> oid \<Rightarrow> string \<Rightarrow> string \<Rightarrow> string option \<Rightarrow> string
     \<Rightarrow> content_report" where
  "newContentReport e rq ty tid rty rsn info sv =
     \<lparr>cid = newId e, reporter = user_id rq, targetType = ty, targetId = tid,
      reportType = rty, reason = rsn, additionalInfo = info, severity = sv,
      status = ''pending'', priority = ''medium'', actionsTaken = [],
      cmetadata = \<lparr>reporterIP = ip rq, reporterUserAgent = userAgent rq,
                   timestamp = Some (now e)\<rparr>\<rparr>"

text \<open>
  \<^verbatim>\<open>ContentReport.findOne({ reporter, targetType, targetId })\<close>: the query names no status.
\<close>

definition findOneContentReport ::
  "state \<Rightarrow> oid \<Rightarrow> string \<Rightarrow> oid \<Rightarrow> content_report option" where
  "findOneContentReport st u ty tid =
     find (\<lambda>r. reporter r = u \<and> targetType r = ty \<and> targetId r = tid) (contentReports st)"

text \<open>
  The existence check of both content-report handlers: \<^verbatim>\<open>targetExists\<close> starts false and
  only the type \<^verbatim>\<open>'post'\<close> is looked up (\<^verbatim>\<open>Post.findById\<close>).
\<close>

definition targetExists :: "state \<Rightarrow> string \<Rightarrow> oid \<Rightarrow> bool" where
  "targetExists st ty tid = (if ty = ''post'' then tid \<in> set (posts st) else False)"

section \<open>The validated content-report route (part_000)\<close>

definition contentReportPost :: "state \<Rightarrow> env \<Rightarrow> request \<Rightarrow> response \<times> state" where
  "contentReportPost st e rq =
     (let b = sanitized (rbody rq) in
      if \<not> contentReportValid (rbody rq) then (Response 400 ''Validation failed'', st)
      else
        case (b_type b, b_targetId b, b_reason b, severityText (b_severity b)) of
          (Some ty, Some tid, Some rsn, Some sv) \<Rightarrow>
            if \<not> targetExists st ty tid then (Response 404 ''Content not found'', st)
            else if findOneContentReport st (user_id rq) ty tid \<noteq> None
              then (Response 400 ''You have already reported this content'', st)
            else
              let r = newContentReport e rq ty tid rsn
                        (orElse (b_additionalInfo b) ''No additional information provided'')
                        (b_additionalInfo b) sv
              in if contentReportSchema r
                 then (Response 201 ''Content reported successfully'',
                       st\<lparr>contentReports := contentReports st @ [r]\<rparr>)
                 else (Response 500 ''Internal server error'', st)
        | _ \<Rightarrow> (Response 500 ''Internal server error'', st))"

section \<open>The models that are not part of the sources\<close>

text \<open>
  \<^verbatim>\<open>models/Reports.js\<close> and \<^verbatim>\<open>models/User.js\<close> are imported by the routers and absent
  from the sources. What the routers need of them is a parameter of every handler:
  \<^item> \<open>reportSchema\<close>: whether \<^verbatim>\<open>save()\<close> accepts the document (validation failing makes
    \<^verbatim>\<open>save()\<close> throw);
  \<^item> \<open>takeAction\<close>: the method \<^verbatim>\<open>report.takeAction(action, details, adminId)\<close>, given the
    clock; \<open>None\<close> when it throws, otherwise the document it leaves stored;
  \<^item> \<open>castOther\<close>: what the driver makes of a string that is not 24 hexadecimal digits
    where an ObjectId is expected (\<open>None\<close> when the cast throws; some versions read a
    string of 12 characters as 12 bytes).
\<close>

record models =
  reportSchema :: "report \<Rightarrow> bool"
  takeAction :: "report \<Rightarrow> string \<Rightarrow> string \<Rightarrow> oid \<Rightarrow> time \<Rightarrow> report option"
  castOther :: "string \<Rightarrow> oid option"

text \<open>
  Mongoose's cast of a string to an ObjectId, in queries and in \<^verbatim>\<open>new Report({...})\<close>: a
  string of 24 hexadecimal digits, in either case, is the ObjectId with that value.
\<close>

definition castObjectId :: "models \<Rightarrow> string \<Rightarrow> oid option" where
  "castObjectId M s = (if length s = 24 \<and> list_all isHex s then fromHex 0 s else castOther M s)"

text \<open>
  Modelled from the spec: the default \<^verbatim>\<open>status\<close> of a new \<^verbatim>\<open>Report\<close> document, which the
  absent schema of \<^verbatim>\<open>models/Reports.js\<close> sets. Section 4.4 names \<^verbatim>\<open>pending\<close> the initial
  state.
\<close>

definition initialStatus :: string where
  "initialStatus = ''pending''"

definition findUser :: "state \<Rightarrow> oid \<Rightarrow> user option" where
  "findUser st i = find (\<lambda>u. uid u = i) (users st)"

definition findReport :: "state \<Rightarrow> oid \<Rightarrow> report option" where
  "findReport st i = find (\<lambda>r. rid r = i) (reports st)"

text \<open>\<^verbatim>\<open>Report.findOne({ reporter, reportedUser })\<close>.\<close>

definition findOneReport :: "state \<Rightarrow> oid \<Rightarrow> oid \<Rightarrow> report option" where
  "findOneReport st u v = find (\<lambda>r. rreporter r = u \<and> reportedUser r = v) (reports st)"

text \<open>\<^verbatim>\<open>save()\<close> of a document that was read from the collection: it replaces the stored one.\<close>

definition storeReport :: "state \<Rightarrow> oid \<Rightarrow> report \<Rightarrow> state" where
  "storeReport st i r' = st\<lparr>reports := map (\<lambda>r. if rid r = i then r' else r) (reports st)\<rparr>"

section \<open>The universal report route (part_002)\<close>

text \<open>\<^verbatim>\<open>reason.toLowerCase().replace(/\s+/g, '_')\<close>.\<close>

definition normalizeReason :: "string \<Rightarrow> string" where
  "normalizeReason s = replaceSpaces (toLowerCase s)"

definition handleContentReport :: "state \<Rightarrow> env \<Rightarrow> request \<Rightarrow> response \<times> state" where
  "handleContentReport st e rq =
     (let b = rbody rq in
      if truthy (b_type b) \<and> b_targetId b \<noteq> None \<and> truthy (b_reason b) then
        case (b_type b, b_targetId b, b_reason b) of
          (Some ty, Some tid, Some rsn) \<Rightarrow>
            if \<not> targetExists st ty tid then (Response 404 ''Content not found'', st)
            else if findOneContentReport st (user_id rq) ty tid \<noteq> None
              then (Response 400 ''You have already reported this content'', st)
            else
              (case severityText (b_severity b) of
                 None \<Rightarrow> (Response 500 ''Internal server error'', st)
               | Some sv \<Rightarrow>
                   let r = newContentReport e rq ty tid (normalizeReason rsn)
                             (orElse (b_additionalInfo b) rsn) (b_additionalInfo b) sv
                   in if contentReportSchema r
                      then (Response 201 ''Content reported successfully'',
                            st\<lparr>contentReports := contentReports st @ [r]\<rparr>)
                      else (Response 500 ''Internal server error'', st))
        | _ \<Rightarrow> (Response 500 ''Internal server error'', st)
      else (Response 400 ''Content reports require type, targetId, and reason'', st))"

text \<open>\<^verbatim>\<open>req.body.severity || 5\<close>: absent, the empty string and the number 0 are falsy.\<close>

definition severityOr5 :: "sev option \<Rightarrow> sev" where
  "severityOr5 v =
     (case v of
        None \<Rightarrow> SevNum 5
      | Some (SevStr s) \<Rightarrow> if s = [] then SevNum 5 else SevStr s
      | Some (SevNum n) \<Rightarrow> if n = 0 then SevNum 5 else SevNum n)"

definition newReport :: "env \<Rightarrow> request \<Rightarrow> oid \<Rightarrow> string \<Rightarrow> string \<Rightarrow> report" where
  "newReport e rq ru rt rsn =
     \<lparr>rid = newId e, rreporter = user_id rq, reportedUser = ru, rreportType = rt,
      rreason = rsn,
      evidence = (case b_evidence (rbody rq) of None \<Rightarrow> [] | Some ev \<Rightarrow> ev),
      category = orElse (b_category (rbody rq)) ''behavior'',
      rseverity = severityOr5 (b_severity (rbody rq)),
      rstatus = initialStatus, adminNotes = None, ractionsTaken = [],
      rmetadata = \<lparr>reporterIP = ip rq, reporterUserAgent = userAgent rq, timestamp = None\<rparr>\<rparr>"

text \<open>
  The self-report test \<^verbatim>\<open>reportedUserId === req.user.id\<close> compares two strings; the lookup
  of the user, the duplicate query and the new document cast the string to an ObjectId
  afterwards, and a string that cannot be cast makes the lookup throw.
\<close>

definition handleUserReport :: "models \<Rightarrow> state \<Rightarrow> env \<Rightarrow> request \<Rightarrow> response \<times> state" where
  "handleUserReport M st e rq =
     (let b = rbody rq in
      if truthy (b_reportedUserId b) \<and> truthy (b_reportType b) \<and> truthy (b_reason b) then
        case (b_reportedUserId b, b_reportType b, b_reason b) of
          (Some raw, Some rt, Some rsn) \<Rightarrow>
            if raw = toHexString (user_id rq) then (Response 400 ''Cannot report yourself'', st)
            else
              (case castObjectId M raw of
                 None \<Rightarrow> (Response 500 ''Internal server error'', st)
               | Some ru \<Rightarrow>
                   if findUser st ru = None then (Response 404 ''Reported user not found'', st)
                   else if findOneReport st (user_id rq) ru \<noteq> None
                     then (Response 400 ''You have already reported this user'', st)
                   else
                     let r = newReport e rq ru rt rsn
                     in if reportSchema M r
                        then (Response 201 ''User reported successfully'',
                              st\<lparr>reports := reports st @ [r]\<rparr>)
                        else (Response 500 ''Internal server error'', st))
        | _ \<Rightarrow> (Response 500 ''Internal server error'', st)
      else (Response 400 ''User reports require reportedUserId, reportType, and reason'', st))"

definition invalidFormat :: string where
  "invalidFormat = ''Invalid report format. Must include either (type + targetId) for content reports or reportedUserId for user reports.''"

definition universalPost :: "models \<Rightarrow> state \<Rightarrow> env \<Rightarrow> request \<Rightarrow> response \<times> state" where
  "universalPost M st e rq =
     (if truthy (b_type (rbody rq)) \<and> b_targetId (rbody rq) \<noteq> None
        then handleContentReport st e rq
      else if truthy (b_reportedUserId (rbody rq)) then handleUserReport M st e rq
      else (Response 400 invalidFormat, st))"

section \<open>The admin router (part_001)\<close>

text \<open>
  The router is mounted behind \<^verbatim>\<open>auth\<close> and \<^verbatim>\<open>adminAuth\<close>; \<open>actor\<close> is
  \<^verbatim>\<open>req.user?.id || null\<close>. A 500 answer of this router carries the thrown error's message,
  written here as the empty string.
\<close>

record moderate_body =
  m_action :: "string option"
  m_reason :: "string option"
  m_adminNotes :: "string option"

text \<open>The \<^verbatim>\<open>switch\<close> of the moderate handler.\<close>

definition moderateStatus :: "string \<Rightarrow> string" where
  "moderateStatus a =
     (if a = ''approve'' then ''resolved''
      else if a = ''reject'' then ''dismissed''
      else ''resolved'')"

definition moderateEntry :: "env \<Rightarrow> oid option \<Rightarrow> string \<Rightarrow> string option \<Rightarrow> action_entry" where
  "moderateEntry e actor a rsn =
     \<lparr>action = (if a = ''approve'' then ''no_action''
                else if a = ''reject'' then ''content_removal'' else ''no_action''),
      areason = orElse rsn (''Content '' @ a @ ''d by admin''),
      takenBy = actor, takenAt = now e\<rparr>"

text \<open>What the moderate handler writes into the report it has read, for the action \<open>a\<close>.\<close>

definition moderateUpdate ::
  "env \<Rightarrow> oid option \<Rightarrow> string \<Rightarrow> moderate_body \<Rightarrow> report \<Rightarrow> report" where
  "moderateUpdate e actor a b r =
     r\<lparr>rstatus := moderateStatus a,
       adminNotes := (if truthy (m_adminNotes b) then m_adminNotes b else adminNotes r),
       ractionsTaken := ractionsTaken r @ [moderateEntry e actor a (m_reason b)]\<rparr>"

text \<open>\<^verbatim>\<open>PATCH /moderation/reports/:id/moderate\<close>. The handler reads no status before it writes.\<close>

definition moderate ::
  "models \<Rightarrow> state \<Rightarrow> env \<Rightarrow> oid option \<Rightarrow> oid \<Rightarrow> moderate_body \<Rightarrow> response \<times> state" where
  "moderate M st e actor i b =
     (case m_action b of
        None \<Rightarrow> (Response 400 ''Invalid action'', st)
      | Some a \<Rightarrow>
          if a \<notin> set [''approve'', ''reject'', ''mark_safe'']
            then (Response 400 ''Invalid action'', st)
          else
            (case findReport st i of
               None \<Rightarrow> (Response 404 ''Report not found'', st)
             | Some r \<Rightarrow>
                 if reportSchema M (moderateUpdate e actor a b r)
                 then (Response 200 (''Content '' @ a @ ''d successfully''),
                       storeReport st i (moderateUpdate e actor a b r))
                 else (Response 500 [], st)))"

section \<open>Action on a report (part_002)\<close>

record action_body =
  a_action :: "string option"
  a_details :: "string option"

definition actions :: "string list" where
  "actions = [''none'', ''warning'', ''temporary_ban'', ''permanent_ban'', ''content_removal'',
              ''profile_restriction'']"

text \<open>\<^verbatim>\<open>body('details').isString().trim().isLength({ min: 10, max: 1000 })\<close>.\<close>

definition detailsOk :: "string option \<Rightarrow> bool" where
  "detailsOk v =
     (case v of None \<Rightarrow> False | Some d \<Rightarrow> 10 \<le> length (trim d) \<and> length (trim d) \<le> 1000)"

definition actionValid :: "action_body \<Rightarrow> bool" where
  "actionValid b = (isIn (a_action b) actions \<and> detailsOk (a_details b))"

text \<open>\<^verbatim>\<open>user.role !== 'admin' && user.role !== 'moderator'\<close>.\<close>

definition notStaff :: "user \<Rightarrow> bool" where
  "notStaff u = (role u \<noteq> ''admin'' \<and> role u \<noteq> ''moderator'')"

text \<open>
  \<^verbatim>\<open>User.findByIdAndUpdate(id, { status: 'suspended', ...(banDuration && { suspendedUntil }) })\<close>:
  the update sets \<^verbatim>\<open>status\<close>, and \<^verbatim>\<open>suspendedUntil\<close> only when an expiry is given; the
  fields it does not name keep their values.
\<close>

definition findByIdAndUpdateUser :: "state \<Rightarrow> oid \<Rightarrow> time option \<Rightarrow> state" where
  "findByIdAndUpdateUser st i until =
     st\<lparr>users :=
          map (\<lambda>u. if uid u = i
                    then u\<lparr>ustatus := ''suspended'',
                           suspendedUntil :=
                             (case until of None \<Rightarrow> suspendedUntil u | Some t \<Rightarrow> Some t)\<rparr>
                    else u) (users st),
        userUpdateCalls := userUpdateCalls st @ [(i, ''suspended'', until)]\<rparr>"

text \<open>\<^verbatim>\<open>action === 'temporary_ban' ? 7 * 24 * 60 * 60 * 1000 : null\<close>, added to the clock.\<close>

definition banUntil :: "env \<Rightarrow> string \<Rightarrow> time option" where
  "banUntil e a = (if a = ''temporary_ban'' then Some (now e + 7 * 24 * 60 * 60 * 1000) else None)"

text \<open>
  \<^verbatim>\<open>PUT /:reportId/action\<close>. \<open>actor\<close> is \<^verbatim>\<open>req.user.id\<close>; reading \<^verbatim>\<open>user.role\<close> of a missing
  user throws, which the handler answers with 500.
\<close>

definition putAction ::
  "models \<Rightarrow> state \<Rightarrow> env \<Rightarrow> oid \<Rightarrow> oid \<Rightarrow> action_body \<Rightarrow> response \<times> state" where
  "putAction M st e actor i b =
     (if \<not> actionValid b then (Response 400 ''Validation failed'', st)
      else
        case (a_action b, a_details b, findUser st actor) of
          (Some a, Some d, Some u) \<Rightarrow>
            if notStaff u then (Response 403 ''Access denied. Admin privileges required.'', st)
            else
              (case findReport st i of
                 None \<Rightarrow> (Response 404 ''Report not found'', st)
               | Some r \<Rightarrow>
                   (case takeAction M r a (trim d) actor (now e) of
                      None \<Rightarrow> (Response 500 ''Failed to take action on report'', st)
                    | Some r' \<Rightarrow>
                        let st1 = storeReport st i r' in
                        (Response 200 ''Action taken successfully'',
                         if a = ''temporary_ban'' \<or> a = ''permanent_ban''
                         then findByIdAndUpdateUser st1 (reportedUser r') (banUntil e a)
                         else st1)))
        | _ \<Rightarrow> (Response 500 ''Failed to take action on report'', st))"

section \<open>The spec's words, for comparison\<close>

text \<open>
  The priority engine as section 4.3 of the spec words it: severity normalised onto the
  ordinals 1 to 4 (low, medium, high, urgent), a floor of high for \<^verbatim>\<open>self_harm\<close> and
  \<^verbatim>\<open>violence\<close>, and the maximum of both. The sources hold no such function; this
  definition follows the spec and is compared with what the routers store.
\<close>

definition specNormalize :: "sev \<Rightarrow> nat" where
  "specNormalize v =
     (case v of
        SevNum n \<Rightarrow> if 8 \<le> n then 4 else if 6 \<le> n then 3 else if 3 \<le> n then 2 else 1
      | SevStr s \<Rightarrow> if s = ''urgent'' then 4 else if s = ''high'' then 3
                    else if s = ''medium'' then 2 else 1)"

definition specFloor :: "string \<Rightarrow> nat" where
  "specFloor rc = (if rc \<in> set [''self_harm'', ''violence''] then 3 else 1)"

definition tierName :: "nat \<Rightarrow> string" where
  "tierName n = (if n = 4 then ''urgent'' else if n = 3 then ''high''
                 else if n = 2 then ''medium'' else ''low'')"

definition specPriorityOf :: "string \<Rightarrow> sev \<Rightarrow> string" where
  "specPriorityOf rc v = tierName (max (specNormalize v) (specFloor rc))"

definition terminal :: "string \<Rightarrow> bool" where
  "terminal s = (s \<in> set [''resolved'', ''dismissed''])"

text \<open>
  Modelled from the spec: the method \<^verbatim>\<open>report.takeAction\<close> of \<^verbatim>\<open>models/Reports.js\<close>, which
  is not part of the sources. Sections 4.4, 4.5, 5 and 8: an action outside the list or
  details shorter than 10 characters are refused; a repeat of an action already recorded
  for the same actor on this report is a no-op; a terminal report refuses any other
  action; otherwise the report becomes resolved and one entry
  \<^verbatim>\<open>{action, reason, actorId, takenAt}\<close> is appended.
\<close>

definition specTakeAction :: "report \<Rightarrow> string \<Rightarrow> string \<Rightarrow> oid \<Rightarrow> time \<Rightarrow> report option" where
  "specTakeAction r a d actor t =
     (if a \<notin> set actions then None
      else if length d < 10 then None
      else if find (\<lambda>x. action x = a \<and> takenBy x = Some actor) (ractionsTaken r) \<noteq> None
        then Some r
      else if terminal (rstatus r) then None
      else Some (r\<lparr>rstatus := ''resolved'',
                   ractionsTaken := ractionsTaken r @
                     [\<lparr>action = a, areason = d, takenBy = Some actor, takenAt = t\<rparr>]\<rparr>))"

section \<open>Example data\<close>

text \<open>
  The absent models as the examples run them: a schema that accepts every document, the
  method as the spec describes it, and a cast that throws on every string that is not 24
  hexadecimal digits.
\<close>

definition exampleModels :: models where
  "exampleModels =
     \<lparr>reportSchema = (\<lambda>r. True),
      takeAction = specTakeAction, castOther = (\<lambda>s. None)\<rparr>"

definition mkUser :: "oid \<Rightarrow> string \<Rightarrow> string \<Rightarrow> user" where
  "mkUser i n r =
     \<lparr>uid = i, username = n, role = r, ustatus = ''active'', suspendedUntil = None\<rparr>"

text \<open>Users 1 and 2 and 3, the admin 9, the post 10 and the reel 20; no report yet.\<close>

definition exampleStore :: state where
  "exampleStore =
     \<lparr>users = [mkUser 1 ''u1'' ''user'', mkUser 2 ''u2'' ''user'', mkUser 3 ''u3'' ''user'',
               mkUser 9 ''admin1'' ''admin''],
      posts = [10], reels = [20], contentReports = [], reports = [], userUpdateCalls = []\<rparr>"

definition emptyBody :: body where
  "emptyBody =
     \<lparr>b_type = None, b_targetId = None, b_reason = None, b_additionalInfo = None,
      b_severity = None, b_reportedUserId = None, b_reportType = None, b_evidence = None,
      b_category = None\<rparr>"

definition mkRequest :: "oid \<Rightarrow> body \<Rightarrow> request" where
  "mkRequest u b = \<lparr>user_id = u, ip = ''127.0.0.1'', userAgent = None, rbody = b\<rparr>"

text \<open>\<^verbatim>\<open>{ type, targetId, reason }\<close>.\<close>

definition contentBody :: "string \<Rightarrow> oid \<Rightarrow> string \<Rightarrow> body" where
  "contentBody ty tid rsn = emptyBody\<lparr>b_type := Some ty, b_targetId := Some tid, b_reason := Some rsn\<rparr>"

text \<open>\<^verbatim>\<open>{ reportedUserId, reportType, reason }\<close>, the identifier in lower case.\<close>

definition userBody :: "oid \<Rightarrow> string \<Rightarrow> string \<Rightarrow> body" where
  "userBody ru rt rsn =
     emptyBody\<lparr>b_reportedUserId := Some (toHexString ru), b_reportType := Some rt,
       b_reason := Some rsn\<rparr>"

definition envAt :: "time \<Rightarrow> oid \<Rightarrow> env" where
  "envAt t i = \<lparr>now = t, newId = i\<rparr>"

text \<open>A content report of user 1 against post 10 that a moderator has resolved.\<close>

definition resolvedReport :: content_report where
  "resolvedReport =
     (newContentReport (envAt 500 50) (mkRequest 1 emptyBody) ''post'' 10 ''spam''
        ''No additional information provided'' None ''medium'')\<lparr>status := ''resolved''\<rparr>"

text \<open>User 1 reports post 10 for self-harm, with severity low.\<close>

definition selfHarmLow :: request where
  "selfHarmLow =
     mkRequest 1 ((contentBody ''post'' 10 ''self_harm'')\<lparr>b_severity := Some (SevStr ''low'')\<rparr>)"

text \<open>User 1 reports user 2 for harassment; the report gets the identifier 100.\<close>

definition harassmentRequest :: request where
  "harassmentRequest = mkRequest 1 (userBody 2 ''harassment'' ''abusive messages'')"

definition harassmentReport :: report where
  "harassmentReport = newReport (envAt 1000 100) harassmentRequest 2 ''harassment'' ''abusive messages''"

definition approve :: moderate_body where
  "approve = \<lparr>m_action = Some ''approve'', m_reason = None, m_adminNotes = None\<rparr>"

definition reject :: moderate_body where
  "reject = \<lparr>m_action = Some ''reject'', m_reason = None, m_adminNotes = None\<rparr>"

text \<open>The store after the report, and after the admin 9 has approved it (status resolved).\<close>

definition reportedStore :: state where
  "reportedStore = exampleStore\<lparr>reports := [harassmentReport]\<rparr>"

definition approvedReport :: report where
  "approvedReport = moderateUpdate (envAt 2000 0) (Some 9) ''approve'' approve harassmentReport"

definition approvedStore :: state where
  "approvedStore = exampleStore\<lparr>reports := [approvedReport]\<rparr>"

text \<open>User 1 reports the reel 20, which exists, for spam.\<close>

definition reelRequest :: request where
  "reelRequest = mkRequest 1 (contentBody ''reel'' 20 ''spam'')"

text \<open>Two action bodies: a permanent ban with a justification of 9 and of 29 characters.\<close>

definition shortBan :: action_body where
  "shortBan = \<lparr>a_action = Some ''permanent_ban'', a_details = Some ''too short''\<rparr>"

definition permanentBan :: action_body where
  "permanentBan =
     \<lparr>a_action = Some ''permanent_ban'', a_details = Some ''repeated harassment confirmed''\<rparr>"


text \<open>User 1 reports post 10 on the universal route, with the label of the reason.\<close>

definition labelRequest :: request where
  "labelRequest = mkRequest 1 (contentBody ''post'' 10 ''Inappropriate content'')"

text \<open>
  A store with the user 10, whose identifier ends in the digit \<^verbatim>\<open>a\<close>, and two reports of
  user 10 against user 10: one spells the identifier as \<^verbatim>\<open>req.user.id\<close> does, the other in
  upper case.
\<close>

definition letterStore :: state where
  "letterStore = exampleStore\<lparr>users := users exampleStore @ [mkUser 10 ''u10'' ''user'']\<rparr>"

definition selfRequest :: request where
  "selfRequest = mkRequest 10 (userBody 10 ''harassment'' ''abusive messages'')"

definition upperRequest :: request where
  "upperRequest =
     mkRequest 10 ((userBody 10 ''harassment'' ''abusive messages'')
       \<lparr>b_reportedUserId := Some ''00000000000000000000000A''\<rparr>)"

text \<open>
  Report 100 after the admin 9 has banned its target for good at time 2000, and the store
  after that call.
\<close>

definition bannedReport :: report where
  "bannedReport =
     harassmentReport\<lparr>rstatus := ''resolved'',
       ractionsTaken := [\<lparr>action = ''permanent_ban'', areason = ''repeated harassment confirmed'',
                          takenBy = Some 9, takenAt = 2000\<rparr>]\<rparr>"

definition bannedOnce :: state where
  "bannedOnce = snd (putAction exampleModels reportedStore (envAt 2000 0) 9 100 permanentBan)"

text \<open>
  User 3 reports user 2 as well (report 101). The admin 9 bans user 2 for a week on report
  100 at time 2000, and for good on report 101 at time 3000.
\<close>

definition secondRequest :: request where
  "secondRequest = mkRequest 3 (userBody 2 ''harassment'' ''more abusive messages'')"

definition secondReport :: report where
  "secondReport = newReport (envAt 1500 101) secondRequest 2 ''harassment'' ''more abusive messages''"

definition twoReportsStore :: state where
  "twoReportsStore = exampleStore\<lparr>reports := [harassmentReport, secondReport]\<rparr>"

definition temporaryBan :: action_body where
  "temporaryBan =
     \<lparr>a_action = Some ''temporary_ban'', a_details = Some ''first offence, one week''\<rparr>"

definition afterTemporaryBan :: state where
  "afterTemporaryBan = snd (putAction exampleModels twoReportsStore (envAt 2000 0) 9 100 temporaryBan)"

definition afterPermanentBan :: state where
  "afterPermanentBan = snd (putAction exampleModels afterTemporaryBan (envAt 3000 0) 9 101 permanentBan)"

section \<open>Lemmas on the submission routes\<close>

lemma trim_length_le: "length (trim s) \<le> length s"
  unfolding trim_def
  by (metis length_dropWhile_le length_rev order_trans)

lemma find_matching: "(find P xs \<noteq> None) = (\<exists>x \<in> set xs. P x)"
  by (auto simp: find_None_iff)

lemma orElse_nonempty: "d \<noteq> [] \<Longrightarrow> orElse v d \<noteq> []"
  by (simp add: orElse_def split: option.splits)

lemma orElse_length: "length d \<le> n \<Longrightarrow> (case v of None \<Rightarrow> True | Some s \<Rightarrow> length s \<le> n) \<Longrightarrow> length (orElse v d) \<le> n"
  by (simp add: orElse_def split: option.splits)

lemma validated_schema:
  assumes "contentReportValid b" and "b_type b = Some ty" and "b_reason b = Some rsn"
    and "severityText (b_severity b) = Some sv"
  shows "contentReportSchema (newContentReport e rq ty tid rsn
           (orElse (map_option trim (b_additionalInfo b)) ''No additional information provided'')
           (map_option trim (b_additionalInfo b)) sv)"
proof -
  have ty: "ty \<in> set contentTypes" and rsn: "rsn \<in> set reasonCodes"
    using assms by (simp_all add: contentReportValid_def isIn_def)
  have info: "case map_option trim (b_additionalInfo b) of None \<Rightarrow> True | Some s \<Rightarrow> length s \<le> 500"
    using assms(1) by (simp add: contentReportValid_def additionalInfoOk_def split: option.splits)
  have sv: "sv \<in> set tiers"
    using assms(1,4)
    by (auto simp: contentReportValid_def severityOk_def severityText_def tiers_def
        split: option.splits sev.splits)
  have r1: "orElse (map_option trim (b_additionalInfo b)) ''No additional information provided'' \<noteq> []"
    by (rule orElse_nonempty) simp
  have r2: "length (orElse (map_option trim (b_additionalInfo b)) ''No additional information provided'') \<le> 1000"
    using info by (intro orElse_length) (auto split: option.splits)
  show ?thesis
    using ty rsn info sv r1 r2
    by (simp add: contentReportSchema_def newContentReport_def statuses_def tiers_def)
qed

lemma validated_fields:
  assumes "contentReportValid b"
  obtains ty tid rsn sv where "b_type b = Some ty" "b_targetId b = Some tid"
    "b_reason b = Some rsn" "severityText (b_severity b) = Some sv"
  using assms
  by (auto simp: contentReportValid_def isIn_def severityOk_def severityText_def
      split: option.splits sev.splits)

lemma sanitized_simps [simp]:
  "b_type (sanitized b) = b_type b" "b_targetId (sanitized b) = b_targetId b"
  "b_reason (sanitized b) = b_reason b" "b_severity (sanitized b) = b_severity b"
  "b_additionalInfo (sanitized b) = map_option trim (b_additionalInfo b)"
  by (simp_all add: sanitized_def)

lemma contentReportPost_valid:
  assumes "contentReportValid (rbody rq)" and "b_type (rbody rq) = Some ty"
    and "b_targetId (rbody rq) = Some tid" and "b_reason (rbody rq) = Some rsn"
    and "severityText (b_severity (rbody rq)) = Some sv"
  shows "contentReportPost st e rq =
     (if \<not> targetExists st ty tid then (Response 404 ''Content not found'', st)
      else if findOneContentReport st (user_id rq) ty tid \<noteq> None
        then (Response 400 ''You have already reported this content'', st)
      else (Response 201 ''Content reported successfully'',
            st\<lparr>contentReports := contentReports st @
               [newContentReport e rq ty tid rsn
                  (orElse (map_option trim (b_additionalInfo (rbody rq))) ''No additional information provided'')
                  (map_option trim (b_additionalInfo (rbody rq))) sv]\<rparr>))"
  using assms validated_schema [OF assms(1,2,4,5), of e rq tid]
  by (simp add: contentReportPost_def Let_def)


lemma handleContentReport_fields:
  assumes "b_type (rbody rq) = Some ty" and "b_targetId (rbody rq) = Some tid"
    and "b_reason (rbody rq) = Some rsn" and "ty \<noteq> []" and "rsn \<noteq> []"
  shows "handleContentReport st e rq =
     (if \<not> targetExists st ty tid then (Response 404 ''Content not found'', st)
      else if findOneContentReport st (user_id rq) ty tid \<noteq> None
        then (Response 400 ''You have already reported this content'', st)
      else
        (case severityText (b_severity (rbody rq)) of
           None \<Rightarrow> (Response 500 ''Internal server error'', st)
         | Some sv \<Rightarrow>
             if contentReportSchema (newContentReport e rq ty tid (normalizeReason rsn)
                  (orElse (b_additionalInfo (rbody rq)) rsn) (b_additionalInfo (rbody rq)) sv)
             then (Response 201 ''Content reported successfully'',
                   st\<lparr>contentReports := contentReports st @
                     [newContentReport e rq ty tid (normalizeReason rsn)
                        (orElse (b_additionalInfo (rbody rq)) rsn)
                        (b_additionalInfo (rbody rq)) sv]\<rparr>)
             else (Response 500 ''Internal server error'', st)))"
  using assms by (simp add: handleContentReport_def Let_def truthy_def split: option.splits)

lemma example_valid:
  "contentReportValid (rbody (mkRequest u (contentBody ''post'' t ''spam'')))"
  by (simp add: contentReportValid_def isIn_def contentTypes_def reasonCodes_def
      additionalInfoOk_def severityOk_def mkRequest_def contentBody_def emptyBody_def)

section \<open>Lemmas on the text of an ObjectId\<close>

lemma length_toHex: "length (toHex k n) = k"
  by (induction k arbitrary: n) simp_all

lemma hexValue_hexDigit: "d < 16 \<Longrightarrow> hexValue (hexDigit d) = Some d"
  by (simp add: hexValue_def hexDigit_def Let_def)

lemma isHex_toHex: "list_all isHex (toHex k n)"
  by (induction k arbitrary: n) (simp_all add: isHex_def hexValue_hexDigit)

lemma fromHex_snoc:
  "fromHex a (xs @ [c]) =
     (case fromHex a xs of
        None \<Rightarrow> None
      | Some b \<Rightarrow> (case hexValue c of None \<Rightarrow> None | Some d \<Rightarrow> Some (16 * b + d)))"
  by (induction xs arbitrary: a) (simp_all split: option.splits)

lemma fromHex_toHex: "fromHex a (toHex k n) = Some (a * 16 ^ k + n mod 16 ^ k)"
proof (induction k arbitrary: n)
  case 0
  show ?case by simp
next
  case (Suc k)
  have "n mod (16 * 16 ^ k) = 16 * (n div 16 mod 16 ^ k) + n mod 16"
    by (rule mod_mult2_eq)
  with Suc show ?case
    by (simp add: fromHex_snoc hexValue_hexDigit algebra_simps)
qed

text \<open>The cast reads the text of an ObjectId back, whatever the driver does elsewhere.\<close>

lemma cast_text: "n < 16 ^ 24 \<Longrightarrow> castObjectId M (toHexString n) = Some n"
  by (simp add: castObjectId_def toHexString_def length_toHex isHex_toHex fromHex_toHex)

lemma text_nonempty: "toHexString n \<noteq> []"
  using length_toHex [of 24 n] by (auto simp: toHexString_def)

lemma text_inject: "n < 16 ^ 24 \<Longrightarrow> m < 16 ^ 24 \<Longrightarrow> toHexString n = toHexString m \<Longrightarrow> n = m"
  by (metis cast_text option.inject)

lemma text_10: "toHexString 10 = ''00000000000000000000000a''"
  by code_simp

lemma cast_upper: "castObjectId M ''00000000000000000000000A'' = Some 10"
  by (simp add: castObjectId_def isHex_def hexValue_def)

lemma userBody_fields:
  "b_reportedUserId (rbody (mkRequest u (userBody ru rt rsn))) = Some (toHexString ru)"
  "b_reportType (rbody (mkRequest u (userBody ru rt rsn))) = Some rt"
  "b_reason (rbody (mkRequest u (userBody ru rt rsn))) = Some rsn"
  "b_type (rbody (mkRequest u (userBody ru rt rsn))) = None"
  "b_targetId (rbody (mkRequest u (userBody ru rt rsn))) = None"
  "user_id (mkRequest u b) = u"
  by (simp_all add: mkRequest_def userBody_def emptyBody_def)

text \<open>The user-report handler on a body that passes the field check and the self-report test.\<close>

lemma handleUserReport_cast:
  assumes "b_reportedUserId (rbody rq) = Some raw" and "raw \<noteq> []"
    and "b_reportType (rbody rq) = Some rt" and "rt \<noteq> []"
    and "b_reason (rbody rq) = Some rsn" and "rsn \<noteq> []"
    and "raw \<noteq> toHexString (user_id rq)" and "castObjectId M raw = Some ru"
    and "findUser st ru \<noteq> None"
  shows "handleUserReport M st e rq =
     (if findOneReport st (user_id rq) ru \<noteq> None
        then (Response 400 ''You have already reported this user'', st)
      else if reportSchema M (newReport e rq ru rt rsn)
        then (Response 201 ''User reported successfully'',
              st\<lparr>reports := reports st @ [newReport e rq ru rt rsn]\<rparr>)
      else (Response 500 ''Internal server error'', st))"
  using assms by (auto simp: handleUserReport_def Let_def truthy_def)

text \<open>User \<open>u\<close> reports another user \<open>ru\<close> of the store, with the identifier in lower case.\<close>

lemma handleUserReport_example:
  assumes "u < 16 ^ 24" and "ru < 16 ^ 24" and "u \<noteq> ru" and "rt \<noteq> []" and "rsn \<noteq> []"
    and "findUser st ru \<noteq> None"
  shows "handleUserReport M st e (mkRequest u (userBody ru rt rsn)) =
     (if findOneReport st u ru \<noteq> None
        then (Response 400 ''You have already reported this user'', st)
      else if reportSchema M (newReport e (mkRequest u (userBody ru rt rsn)) ru rt rsn)
        then (Response 201 ''User reported successfully'',
              st\<lparr>reports := reports st @ [newReport e (mkRequest u (userBody ru rt rsn)) ru rt rsn]\<rparr>)
      else (Response 500 ''Internal server error'', st))"
proof -
  let ?rq = "mkRequest u (userBody ru rt rsn)"
  have d: "toHexString ru \<noteq> toHexString (user_id ?rq)"
  proof
    assume "toHexString ru = toHexString (user_id ?rq)"
    then have "toHexString ru = toHexString u"
      by (simp add: userBody_fields)
    with assms(2,1) have "ru = u" by (rule text_inject)
    with assms(3) show False by simp
  qed
  from handleUserReport_cast [of ?rq "toHexString ru" rt rsn M ru st e,
      OF userBody_fields(1) text_nonempty userBody_fields(2) assms(4) userBody_fields(3) assms(5)
        d cast_text [OF assms(2)] assms(6)]
  show ?thesis by (simp add: userBody_fields)
qed

lemma universalPost_userBody:
  "universalPost M st e (mkRequest u (userBody ru rt rsn)) =
     handleUserReport M st e (mkRequest u (userBody ru rt rsn))"
  by (simp add: universalPost_def userBody_fields truthy_def text_nonempty)

section \<open>Deduplication\<close>

text \<open>
  C1, as the code has it. The duplicate query of both content-report routes names the
  reporter, the target type and the target and no status. For a request whose target
  exists: on the validated route a valid submission is answered 400
  ``You have already reported this content'' and stores nothing exactly when the reporter
  has a stored report against the same target, whatever the status of that report
  (resolved and dismissed included), and is answered 201 otherwise; on the universal route
  a submission with a reason is answered that 400 in the same case, and 201 or 500
  otherwise.
\<close>

theorem dedup_ignores_status:
  assumes "b_type (rbody rq) = Some ty" and "b_targetId (rbody rq) = Some tid"
    and "targetExists st ty tid"
  shows "(contentReportValid (rbody rq) \<longrightarrow>
            (if \<exists>r \<in> set (contentReports st).
                  reporter r = user_id rq \<and> targetType r = ty \<and> targetId r = tid
             then contentReportPost st e rq =
                    (Response 400 ''You have already reported this content'', st)
             else fst (contentReportPost st e rq) =
                    Response 201 ''Content reported successfully''))
       \<and> (truthy (b_reason (rbody rq)) \<longrightarrow>
            (if \<exists>r \<in> set (contentReports st).
                  reporter r = user_id rq \<and> targetType r = ty \<and> targetId r = tid
             then handleContentReport st e rq =
                    (Response 400 ''You have already reported this content'', st)
             else code (fst (handleContentReport st e rq)) \<in> {201, 500}))"
proof -
  let ?dup = "\<exists>r \<in> set (contentReports st).
                reporter r = user_id rq \<and> targetType r = ty \<and> targetId r = tid"
  have found: "(findOneContentReport st (user_id rq) ty tid \<noteq> None) = ?dup"
    unfolding findOneContentReport_def find_matching by simp
  have ty: "ty \<noteq> []"
    using assms(3) by (auto simp: targetExists_def split: if_splits)
  have v: "if ?dup
      then contentReportPost st e rq =
             (Response 400 ''You have already reported this content'', st)
      else fst (contentReportPost st e rq) = Response 201 ''Content reported successfully''"
    if "contentReportValid (rbody rq)"
  proof -
    from that obtain ty' tid' rsn sv where f: "b_type (rbody rq) = Some ty'"
      "b_targetId (rbody rq) = Some tid'" "b_reason (rbody rq) = Some rsn"
      "severityText (b_severity (rbody rq)) = Some sv"
      by (rule validated_fields)
    with assms(1,2) have "ty' = ty" "tid' = tid" by simp_all
    with contentReportPost_valid [OF that f, of st e] found assms(3)
    show ?thesis by auto
  qed
  have u: "if ?dup
      then handleContentReport st e rq =
             (Response 400 ''You have already reported this content'', st)
      else code (fst (handleContentReport st e rq)) \<in> {201, 500}"
    if "truthy (b_reason (rbody rq))"
  proof -
    from that obtain rsn where "b_reason (rbody rq) = Some rsn" "rsn \<noteq> []"
      by (auto simp: truthy_def split: option.splits)
    with handleContentReport_fields [OF assms(1,2) this(1) ty this(2), of st e] found assms(3)
    show ?thesis by (auto split: option.splits)
  qed
  from v u show ?thesis by blast
qed

text \<open>The theorem at a store that holds a resolved report, and at one that holds none.\<close>

theorem dedup_ignores_status_witness:
  "contentReportPost (exampleStore\<lparr>contentReports := [resolvedReport]\<rparr>) (envAt 1000 100)
        (mkRequest 1 (contentBody ''post'' 10 ''spam''))
      = (Response 400 ''You have already reported this content'',
         exampleStore\<lparr>contentReports := [resolvedReport]\<rparr>)
   \<and> fst (contentReportPost exampleStore (envAt 1000 100)
        (mkRequest 1 (contentBody ''post'' 10 ''spam'')))
      = Response 201 ''Content reported successfully''"
proof -
  let ?rq = "mkRequest 1 (contentBody ''post'' 10 ''spam'')"
  have t: "b_type (rbody ?rq) = Some ''post''" and i: "b_targetId (rbody ?rq) = Some 10"
    by (simp_all add: mkRequest_def contentBody_def emptyBody_def)
  have x1: "targetExists (exampleStore\<lparr>contentReports := [resolvedReport]\<rparr>) ''post'' 10"
    and x0: "targetExists exampleStore ''post'' 10"
    by (simp_all add: targetExists_def exampleStore_def)
  have d1: "\<exists>r \<in> set (contentReports (exampleStore\<lparr>contentReports := [resolvedReport]\<rparr>)).
      reporter r = user_id ?rq \<and> targetType r = ''post'' \<and> targetId r = 10"
    by (simp add: resolvedReport_def newContentReport_def mkRequest_def)
  have d0: "\<not> (\<exists>r \<in> set (contentReports exampleStore).
      reporter r = user_id ?rq \<and> targetType r = ''post'' \<and> targetId r = 10)"
    by (simp add: exampleStore_def)
  from dedup_ignores_status [OF t i x1, of "envAt 1000 100"] d1 example_valid [of 1 10]
  have a: "contentReportPost (exampleStore\<lparr>contentReports := [resolvedReport]\<rparr>) (envAt 1000 100) ?rq
      = (Response 400 ''You have already reported this content'',
         exampleStore\<lparr>contentReports := [resolvedReport]\<rparr>)"
    by (metis (no_types, lifting))
  from dedup_ignores_status [OF t i x0, of "envAt 1000 100"] d0 example_valid [of 1 10]
  have b: "fst (contentReportPost exampleStore (envAt 1000 100) ?rq)
      = Response 201 ''Content reported successfully''"
    by (metis (no_types, lifting))
  from a b show ?thesis by (rule conjI)
qed


text \<open>
  C1 as stated fails: user 1 has a resolved report against post 10 and reports the post
  again; both routes answer 400 and store nothing. The user-report handler does the same:
  after report 100 of user 1 against user 2 has been resolved, a second report of user 1
  against user 2 is answered 400.
\<close>

theorem resolved_report_blocks:
  "status resolvedReport = ''resolved''
   \<and> contentReportPost (exampleStore\<lparr>contentReports := [resolvedReport]\<rparr>) (envAt 1000 100)
        (mkRequest 1 (contentBody ''post'' 10 ''spam''))
      = (Response 400 ''You have already reported this content'',
         exampleStore\<lparr>contentReports := [resolvedReport]\<rparr>)
   \<and> universalPost exampleModels (exampleStore\<lparr>contentReports := [resolvedReport]\<rparr>)
        (envAt 1000 100) (mkRequest 1 (contentBody ''post'' 10 ''spam''))
      = (Response 400 ''You have already reported this content'',
         exampleStore\<lparr>contentReports := [resolvedReport]\<rparr>)
   \<and> map rstatus (reports approvedStore) = [''resolved'']
   \<and> universalPost exampleModels approvedStore (envAt 3000 102) harassmentRequest
      = (Response 400 ''You have already reported this user'', approvedStore)"
proof -
  have c: "status resolvedReport = ''resolved''
   \<and> contentReportPost (exampleStore\<lparr>contentReports := [resolvedReport]\<rparr>) (envAt 1000 100)
        (mkRequest 1 (contentBody ''post'' 10 ''spam''))
      = (Response 400 ''You have already reported this content'',
         exampleStore\<lparr>contentReports := [resolvedReport]\<rparr>)
   \<and> universalPost exampleModels (exampleStore\<lparr>contentReports := [resolvedReport]\<rparr>)
        (envAt 1000 100) (mkRequest 1 (contentBody ''post'' 10 ''spam''))
      = (Response 400 ''You have already reported this content'',
         exampleStore\<lparr>contentReports := [resolvedReport]\<rparr>)"
    by (simp add: resolvedReport_def newContentReport_def contentReportPost_def universalPost_def
      handleContentReport_def contentReportValid_def isIn_def contentTypes_def reasonCodes_def
      additionalInfoOk_def severityOk_def severityText_def sanitized_def targetExists_def
      findOneContentReport_def exampleStore_def mkRequest_def contentBody_def emptyBody_def
      envAt_def truthy_def Let_def)
  have p: "rreporter approvedReport = 1" "reportedUser approvedReport = 2"
    "rstatus approvedReport = ''resolved''"
    by (simp_all add: approvedReport_def moderateUpdate_def moderateStatus_def
        harassmentReport_def newReport_def harassmentRequest_def mkRequest_def)
  have u: "universalPost exampleModels approvedStore (envAt 3000 102) harassmentRequest
      = (Response 400 ''You have already reported this user'', approvedStore)"
    unfolding harassmentRequest_def universalPost_userBody
    by (subst handleUserReport_example)
      (simp_all add: findUser_def findOneReport_def approvedStore_def exampleStore_def mkUser_def p)
  from c p u show ?thesis
    by (simp add: approvedStore_def)
qed

lemma contentReportPost_created:
  assumes "code (fst (contentReportPost st e rq)) = 201"
  obtains ty tid rsn sv where "contentReportValid (rbody rq)"
    "b_type (rbody rq) = Some ty" "b_targetId (rbody rq) = Some tid"
    "b_reason (rbody rq) = Some rsn" "severityText (b_severity (rbody rq)) = Some sv"
    "snd (contentReportPost st e rq) =
       st\<lparr>contentReports := contentReports st @
          [newContentReport e rq ty tid rsn
             (orElse (map_option trim (b_additionalInfo (rbody rq)))
                ''No additional information provided'')
             (map_option trim (b_additionalInfo (rbody rq))) sv]\<rparr>"
proof -
  have v: "contentReportValid (rbody rq)"
    using assms by (auto simp: contentReportPost_def Let_def split: if_splits)
  then obtain ty tid rsn sv where f: "b_type (rbody rq) = Some ty"
    "b_targetId (rbody rq) = Some tid" "b_reason (rbody rq) = Some rsn"
    "severityText (b_severity (rbody rq)) = Some sv"
    by (rule validated_fields)
  from assms contentReportPost_valid [OF v f, of st e]
  have "snd (contentReportPost st e rq) =
       st\<lparr>contentReports := contentReports st @
          [newContentReport e rq ty tid rsn
             (orElse (map_option trim (b_additionalInfo (rbody rq)))
                ''No additional information provided'')
             (map_option trim (b_additionalInfo (rbody rq))) sv]\<rparr>"
    by (auto split: if_splits)
  with v f that show thesis by blast
qed

lemma handleContentReport_created:
  assumes "code (fst (handleContentReport st e rq)) = 201"
  obtains ty tid rsn sv where
    "b_type (rbody rq) = Some ty" "b_targetId (rbody rq) = Some tid"
    "b_reason (rbody rq) = Some rsn" "severityText (b_severity (rbody rq)) = Some sv"
    "contentReportSchema (newContentReport e rq ty tid (normalizeReason rsn)
         (orElse (b_additionalInfo (rbody rq)) rsn) (b_additionalInfo (rbody rq)) sv)"
    "snd (handleContentReport st e rq) =
       st\<lparr>contentReports := contentReports st @
          [newContentReport e rq ty tid (normalizeReason rsn)
             (orElse (b_additionalInfo (rbody rq)) rsn) (b_additionalInfo (rbody rq)) sv]\<rparr>"
  using assms
  by (auto simp: handleContentReport_def Let_def split: if_splits option.splits)

section \<open>Priority\<close>

text \<open>
  C2, as the code has it. Neither content-report route computes a priority: every
  accepted content report is stored with the schema's default priority \<^verbatim>\<open>medium\<close>,
  whatever its reason code and severity, and with the severity as submitted (\<^verbatim>\<open>medium\<close>
  when the body has none).
\<close>

theorem priority_is_schema_default:
  "(code (fst (contentReportPost st e rq)) = 201 \<longrightarrow>
      (\<exists>r. contentReports (snd (contentReportPost st e rq)) = contentReports st @ [r]
           \<and> priority r = ''medium''
           \<and> Some (severity r) = severityText (b_severity (rbody rq))))
   \<and> (code (fst (handleContentReport st e rq)) = 201 \<longrightarrow>
      (\<exists>r. contentReports (snd (handleContentReport st e rq)) = contentReports st @ [r]
           \<and> priority r = ''medium''
           \<and> Some (severity r) = severityText (b_severity (rbody rq))))"
proof (intro conjI impI)
  assume "code (fst (contentReportPost st e rq)) = 201"
  then show "\<exists>r. contentReports (snd (contentReportPost st e rq)) = contentReports st @ [r]
      \<and> priority r = ''medium'' \<and> Some (severity r) = severityText (b_severity (rbody rq))"
    by (rule contentReportPost_created) (simp add: newContentReport_def)
next
  assume "code (fst (handleContentReport st e rq)) = 201"
  then show "\<exists>r. contentReports (snd (handleContentReport st e rq)) = contentReports st @ [r]
      \<and> priority r = ''medium'' \<and> Some (severity r) = severityText (b_severity (rbody rq))"
    by (rule handleContentReport_created) (simp add: newContentReport_def)
qed

lemma selfHarmLow_post:
  "contentReportPost exampleStore (envAt 1000 100) selfHarmLow =
     (Response 201 ''Content reported successfully'',
      exampleStore\<lparr>contentReports :=
        [newContentReport (envAt 1000 100) selfHarmLow ''post'' 10 ''self_harm''
           ''No additional information provided'' None ''low'']\<rparr>)"
  by (simp add: selfHarmLow_def newContentReport_def contentReportPost_def
      contentReportValid_def isIn_def contentTypes_def reasonCodes_def
      additionalInfoOk_def severityOk_def severityText_def sanitized_def targetExists_def
      findOneContentReport_def exampleStore_def mkRequest_def contentBody_def emptyBody_def
      envAt_def Let_def contentReportSchema_def tiers_def statuses_def orElse_def)

text \<open>
  C2 as stated fails: a report for \<^verbatim>\<open>self_harm\<close> with severity \<^verbatim>\<open>low\<close> is accepted and
  stored with priority \<^verbatim>\<open>medium\<close>, where the spec's engine gives \<^verbatim>\<open>high\<close>. (By the
  thresholds the claim states, spam with severity 8 is \<^verbatim>\<open>urgent\<close>, not the \<^verbatim>\<open>high\<close> the
  claim lists.)
\<close>

theorem self_harm_low_stored_medium:
  "fst (contentReportPost exampleStore (envAt 1000 100) selfHarmLow)
     = Response 201 ''Content reported successfully''
   \<and> map priority (contentReports (snd (contentReportPost exampleStore (envAt 1000 100) selfHarmLow)))
     = [''medium'']
   \<and> specPriorityOf ''self_harm'' (SevStr ''low'') = ''high''
   \<and> specPriorityOf ''spam'' (SevNum 8) = ''urgent''"
  by (simp add: selfHarmLow_post newContentReport_def specPriorityOf_def specNormalize_def
      specFloor_def tierName_def)

text \<open>The theorem at that submission.\<close>

theorem priority_is_schema_default_witness:
  "map priority (contentReports (snd (contentReportPost exampleStore (envAt 1000 100) selfHarmLow)))
     = [''medium'']
   \<and> map severity (contentReports (snd (contentReportPost exampleStore (envAt 1000 100) selfHarmLow)))
     = [''low'']"
proof -
  have c: "code (fst (contentReportPost exampleStore (envAt 1000 100) selfHarmLow)) = 201"
    by (simp add: selfHarmLow_post)
  have s: "severityText (b_severity (rbody selfHarmLow)) = Some ''low''"
    and n: "contentReports exampleStore = []"
    by (simp_all add: selfHarmLow_def mkRequest_def severityText_def exampleStore_def)
  from priority_is_schema_default [of exampleStore "envAt 1000 100" selfHarmLow] c
  obtain r where "contentReports (snd (contentReportPost exampleStore (envAt 1000 100) selfHarmLow))
      = contentReports exampleStore @ [r]" "priority r = ''medium''"
    "Some (severity r) = severityText (b_severity (rbody selfHarmLow))"
    by blast
  with s n show ?thesis by simp
qed

section \<open>Terminal reports\<close>

lemma find_replaced:
  "find (\<lambda>r. rid r = i) xs = Some r \<Longrightarrow> rid r' = i \<Longrightarrow>
   find (\<lambda>r. rid r = i) (map (\<lambda>r. if rid r = i then r' else r) xs) = Some r'"
  by (induction xs) (auto split: if_splits)

lemma findReport_storeReport:
  "findReport st i = Some r \<Longrightarrow> rid r' = i \<Longrightarrow> findReport (storeReport st i r') i = Some r'"
  by (simp add: findReport_def storeReport_def find_replaced)

lemma findReport_rid: "findReport st i = Some r \<Longrightarrow> rid r = i"
  by (auto simp: findReport_def find_Some_iff)

lemma harassment_submitted:
  "universalPost exampleModels exampleStore (envAt 1000 100) harassmentRequest =
     (Response 201 ''User reported successfully'', reportedStore)"
  unfolding harassmentRequest_def universalPost_userBody
  by (subst handleUserReport_example)
    (simp_all add: findUser_def findOneReport_def exampleStore_def mkUser_def exampleModels_def
      reportedStore_def harassmentReport_def harassmentRequest_def)

lemma harassment_rid: "rid harassmentReport = 100"
  by (simp add: harassmentReport_def newReport_def envAt_def)

lemma harassment_found: "findReport reportedStore 100 = Some harassmentReport"
  by (simp add: findReport_def reportedStore_def harassment_rid)

lemma moderate_found:
  assumes "findReport st i = Some r" and "m_action b = Some a"
    and "a \<in> set [''approve'', ''reject'', ''mark_safe'']"
    and "reportSchema M (moderateUpdate e actor a b r)"
  shows "moderate M st e actor i b =
      (Response 200 (''Content '' @ a @ ''d successfully''),
       storeReport st i (moderateUpdate e actor a b r))"
  using assms by (simp add: moderate_def)

lemma exampleModels_accepts: "reportSchema exampleModels r"
  by (simp add: exampleModels_def)

lemma harassment_approved:
  "moderate exampleModels reportedStore (envAt 2000 0) (Some 9) 100 approve =
     (Response 200 ''Content approved successfully'', approvedStore)"
proof -
  have "moderate exampleModels reportedStore (envAt 2000 0) (Some 9) 100 approve =
      (Response 200 (''Content '' @ ''approve'' @ ''d successfully''),
       storeReport reportedStore 100 approvedReport)"
    unfolding approvedReport_def
    by (rule moderate_found [OF harassment_found]) (simp_all add: approve_def exampleModels_accepts)
  moreover have "storeReport reportedStore 100 approvedReport = approvedStore"
    by (simp add: storeReport_def reportedStore_def approvedStore_def harassment_rid)
  ultimately show ?thesis by simp
qed

lemma approved_rid: "rid approvedReport = 100"
  by (simp add: approvedReport_def moderateUpdate_def harassment_rid)

lemma approved_found: "findReport approvedStore 100 = Some approvedReport"
  by (simp add: findReport_def approvedStore_def approved_rid)

lemma approved_status: "rstatus approvedReport = ''resolved''"
  by (simp add: approvedReport_def moderateUpdate_def moderateStatus_def)

lemma approved_actions: "length (ractionsTaken approvedReport) = 1"
  by (simp add: approvedReport_def moderateUpdate_def harassmentReport_def newReport_def)

text \<open>
  C3, as the code has it. The moderate handler of the admin router reads no status: on a
  stored report, whatever its status (resolved and dismissed included), a call with one
  of the three actions whose document the schema accepts is answered 200, sets the status
  the action names (approve and mark_safe resolved, reject dismissed) and appends one
  entry to the actions taken. There is no InvalidTransitionError.
\<close>

theorem moderate_ignores_status:
  assumes "findReport st i = Some r" and "m_action b = Some a"
    and "a \<in> set [''approve'', ''reject'', ''mark_safe'']"
    and "reportSchema M (moderateUpdate e actor a b r)"
  shows "fst (moderate M st e actor i b) = Response 200 (''Content '' @ a @ ''d successfully'')
       \<and> findReport (snd (moderate M st e actor i b)) i = Some (moderateUpdate e actor a b r)
       \<and> rstatus (moderateUpdate e actor a b r) = moderateStatus a
       \<and> ractionsTaken (moderateUpdate e actor a b r) =
           ractionsTaken r @ [moderateEntry e actor a (m_reason b)]"
proof -
  have m: "moderate M st e actor i b =
      (Response 200 (''Content '' @ a @ ''d successfully''),
       storeReport st i (moderateUpdate e actor a b r))"
    using assms by (rule moderate_found)
  have "rid (moderateUpdate e actor a b r) = i"
    using findReport_rid [OF assms(1)] by (simp add: moderateUpdate_def)
  with assms(1) have "findReport (storeReport st i (moderateUpdate e actor a b r)) i =
      Some (moderateUpdate e actor a b r)"
    by (rule findReport_storeReport)
  with m show ?thesis by (simp add: moderateUpdate_def)
qed

text \<open>The theorem at the resolved report 100, which the admin now rejects.\<close>

theorem moderate_ignores_status_witness:
  "terminal (rstatus approvedReport)
   \<and> fst (moderate exampleModels approvedStore (envAt 3000 0) (Some 9) 100 reject)
       = Response 200 ''Content rejectd successfully''
   \<and> map_option rstatus
       (findReport (snd (moderate exampleModels approvedStore (envAt 3000 0) (Some 9) 100 reject)) 100)
       = Some ''dismissed''
   \<and> map_option (length \<circ> ractionsTaken)
       (findReport (snd (moderate exampleModels approvedStore (envAt 3000 0) (Some 9) 100 reject)) 100)
       = Some 2"
proof -
  have a: "m_action reject = Some ''reject''"
    by (simp add: reject_def)
  have s: "reportSchema exampleModels
      (moderateUpdate (envAt 3000 0) (Some 9) ''reject'' reject approvedReport)"
    by (rule exampleModels_accepts)
  from moderate_ignores_status [OF approved_found a _ s] approved_actions approved_status
  show ?thesis by (simp add: moderateStatus_def terminal_def)
qed

text \<open>
  C3 as stated fails: report 100 is submitted, approved (status resolved, one action
  taken) and then rejected; the second call is answered 200, the status becomes dismissed
  and a second entry is appended.
\<close>

theorem resolved_report_moderated_again:
  "snd (universalPost exampleModels exampleStore (envAt 1000 100) harassmentRequest) = reportedStore
   \<and> snd (moderate exampleModels reportedStore (envAt 2000 0) (Some 9) 100 approve) = approvedStore
   \<and> map rstatus (reports approvedStore) = [''resolved'']
   \<and> map (length \<circ> ractionsTaken) (reports approvedStore) = [1]
   \<and> fst (moderate exampleModels approvedStore (envAt 3000 0) (Some 9) 100 reject)
       = Response 200 ''Content rejectd successfully''
   \<and> map rstatus (reports (snd (moderate exampleModels approvedStore (envAt 3000 0) (Some 9) 100 reject)))
       = [''dismissed'']
   \<and> map (length \<circ> ractionsTaken)
        (reports (snd (moderate exampleModels approvedStore (envAt 3000 0) (Some 9) 100 reject)))
       = [2]"
proof -
  have a: "m_action reject = Some ''reject''"
    by (simp add: reject_def)
  have m: "moderate exampleModels approvedStore (envAt 3000 0) (Some 9) 100 reject =
      (Response 200 (''Content '' @ ''reject'' @ ''d successfully''),
       storeReport approvedStore 100
         (moderateUpdate (envAt 3000 0) (Some 9) ''reject'' reject approvedReport))"
    by (rule moderate_found [OF approved_found a]) (simp_all add: exampleModels_accepts)
  show ?thesis
    unfolding m harassment_submitted harassment_approved
    by (simp add: storeReport_def approvedStore_def approved_rid approved_status
        approved_actions moderateUpdate_def moderateStatus_def)
qed

section \<open>Target existence\<close>

lemma other_types_not_found:
  assumes "contentReportValid (rbody rq)" and "b_type (rbody rq) \<noteq> Some ''post''"
  shows "contentReportPost st e rq = (Response 404 ''Content not found'', st)"
proof -
  from assms(1) obtain ty tid rsn sv where f: "b_type (rbody rq) = Some ty"
    "b_targetId (rbody rq) = Some tid" "b_reason (rbody rq) = Some rsn"
    "severityText (b_severity (rbody rq)) = Some sv"
    by (rule validated_fields)
  with assms(2) have "\<not> targetExists st ty tid"
    by (simp add: targetExists_def)
  with contentReportPost_valid [OF assms(1) f, of st e] show ?thesis by simp
qed

text \<open>
  C6 at its failing input: the reel 20 is in the store, and a report against it is
  answered 404 ``Content not found'' by both routes, which look up posts only.
\<close>

theorem existing_reel_not_found:
  "20 \<in> set (reels exampleStore)
   \<and> contentReportValid (rbody reelRequest)
   \<and> contentReportPost exampleStore (envAt 1000 100) reelRequest
       = (Response 404 ''Content not found'', exampleStore)
   \<and> universalPost exampleModels exampleStore (envAt 1000 100) reelRequest
       = (Response 404 ''Content not found'', exampleStore)"
proof -
  have v: "contentReportValid (rbody reelRequest)"
    by (simp add: contentReportValid_def isIn_def contentTypes_def reasonCodes_def
        additionalInfoOk_def severityOk_def reelRequest_def mkRequest_def contentBody_def
        emptyBody_def)
  have t: "b_type (rbody reelRequest) \<noteq> Some ''post''"
    by (simp add: reelRequest_def mkRequest_def contentBody_def)
  have u: "universalPost exampleModels exampleStore (envAt 1000 100) reelRequest
       = (Response 404 ''Content not found'', exampleStore)"
    by (simp add: universalPost_def handleContentReport_def truthy_def targetExists_def
        reelRequest_def mkRequest_def contentBody_def emptyBody_def)
  from v other_types_not_found [OF v t] u show ?thesis
    by (simp add: exampleStore_def)
qed

section \<open>Justification of an action\<close>

lemma putAction_invalid:
  "\<not> actionValid b \<Longrightarrow> putAction M st e actor i b = (Response 400 ''Validation failed'', st)"
  by (simp add: putAction_def)

lemma putAction_not_400:
  "fst (putAction M st e actor i b) \<noteq> Response 400 ''Validation failed'' \<Longrightarrow> actionValid b"
  by (rule ccontr) (simp add: putAction_invalid)

text \<open>
  C7. The justification is validated before the handler reads or writes anything: a call
  whose details are absent or, once trimmed, shorter than 10 characters is answered 400
  ``Validation failed'' and leaves the whole store as it was, whatever
  \<^verbatim>\<open>report.takeAction\<close> does; and a call that is not answered so has details of at least
  10 characters.
\<close>

theorem short_details_rejected:
  "((case a_details b of None \<Rightarrow> True | Some d \<Rightarrow> length (trim d) < 10) \<longrightarrow>
      putAction M st e actor i b = (Response 400 ''Validation failed'', st))
   \<and> (fst (putAction M st e actor i b) \<noteq> Response 400 ''Validation failed'' \<longrightarrow>
      (\<exists>d. a_details b = Some d \<and> 10 \<le> length (trim d) \<and> 10 \<le> length d))"
proof (intro conjI impI)
  assume "case a_details b of None \<Rightarrow> True | Some d \<Rightarrow> length (trim d) < 10"
  then have "\<not> actionValid b"
    by (auto simp: actionValid_def detailsOk_def split: option.splits)
  then show "putAction M st e actor i b = (Response 400 ''Validation failed'', st)"
    by (rule putAction_invalid)
next
  assume "fst (putAction M st e actor i b) \<noteq> Response 400 ''Validation failed''"
  then have "actionValid b" by (rule putAction_not_400)
  then obtain d where d: "a_details b = Some d" "10 \<le> length (trim d)"
    by (auto simp: actionValid_def detailsOk_def split: option.splits)
  with trim_length_le [of d] show "\<exists>d. a_details b = Some d \<and> 10 \<le> length (trim d) \<and> 10 \<le> length d"
    by auto
qed

lemma dropWhile_hd: "xs \<noteq> [] \<Longrightarrow> \<not> P (hd xs) \<Longrightarrow> dropWhile P xs = xs"
  by (cases xs) simp_all

lemma trim_no_space: "s \<noteq> [] \<Longrightarrow> \<not> isSpace (hd s) \<Longrightarrow> \<not> isSpace (last s) \<Longrightarrow> trim s = s"
  unfolding trim_def by (simp add: dropWhile_hd hd_rev)

text \<open>The theorem at a justification of 9 characters, on the stored report 100.\<close>

theorem short_details_rejected_witness:
  "putAction exampleModels reportedStore (envAt 2000 0) 9 100 shortBan
     = (Response 400 ''Validation failed'', reportedStore)"
proof -
  have "trim ''too short'' = ''too short''"
    by (rule trim_no_space) (simp_all add: isSpace_def)
  then have "case a_details shortBan of None \<Rightarrow> True | Some d \<Rightarrow> length (trim d) < 10"
    by (simp add: shortBan_def)
  with short_details_rejected [of shortBan exampleModels reportedStore "envAt 2000 0" 9 100]
  show ?thesis by blast
qed

section \<open>Dispatch of the universal route\<close>









section \<open>What a content report stores as its reason\<close>

lemma normalizeReason_code: "rsn \<in> set reasonCodes \<Longrightarrow> normalizeReason rsn = rsn"
  by (auto simp: reasonCodes_def normalizeReason_def toLowerCase_def toLowerChar_def
      isSpace_def)

lemma normalizeReason_label: "normalizeReason ''Inappropriate content'' = ''inappropriate_content''"
  by code_simp

text \<open>
  C9. An accepted content report whose body has no \<^verbatim>\<open>additionalInfo\<close> is stored with no
  additional information and, as its free-text reason, with the constant
  ``No additional information provided'' on the validated route and with the submitted
  reason as it came on the universal route. The report type is the submitted reason on
  the validated route; on the universal route it is the submitted reason in lower case
  with each run of white space replaced by an underscore, which is a reason code and is
  the submitted reason itself when that is a reason code.
\<close>

theorem omitted_additionalInfo:
  "(b_additionalInfo (rbody rq) = None \<and> code (fst (contentReportPost st e rq)) = 201 \<longrightarrow>
      (\<exists>r. contentReports (snd (contentReportPost st e rq)) = contentReports st @ [r]
          \<and> reason r = ''No additional information provided''
          \<and> Some (reportType r) = b_reason (rbody rq)
          \<and> reportType r \<in> set reasonCodes
          \<and> additionalInfo r = None))
   \<and> (b_additionalInfo (rbody rq) = None \<and> code (fst (handleContentReport st e rq)) = 201 \<longrightarrow>
      (\<exists>r rsn. contentReports (snd (handleContentReport st e rq)) = contentReports st @ [r]
          \<and> b_reason (rbody rq) = Some rsn
          \<and> reason r = rsn
          \<and> reportType r = normalizeReason rsn
          \<and> reportType r \<in> set reasonCodes
          \<and> (rsn \<in> set reasonCodes \<longrightarrow> reportType r = rsn)
          \<and> additionalInfo r = None))"
proof (intro conjI impI; elim conjE)
  assume n: "b_additionalInfo (rbody rq) = None"
    and c: "code (fst (contentReportPost st e rq)) = 201"
  from c obtain ty tid rsn sv where v: "contentReportValid (rbody rq)"
    and f: "b_reason (rbody rq) = Some rsn"
    and s: "snd (contentReportPost st e rq) =
       st\<lparr>contentReports := contentReports st @
          [newContentReport e rq ty tid rsn
             (orElse (map_option trim (b_additionalInfo (rbody rq)))
                ''No additional information provided'')
             (map_option trim (b_additionalInfo (rbody rq))) sv]\<rparr>"
    by (rule contentReportPost_created)
  from v f have "rsn \<in> set reasonCodes"
    by (simp add: contentReportValid_def isIn_def)
  with n f s show "\<exists>r. contentReports (snd (contentReportPost st e rq)) = contentReports st @ [r]
          \<and> reason r = ''No additional information provided''
          \<and> Some (reportType r) = b_reason (rbody rq)
          \<and> reportType r \<in> set reasonCodes
          \<and> additionalInfo r = None"
    by (simp add: newContentReport_def orElse_def)
next
  assume n: "b_additionalInfo (rbody rq) = None"
    and c: "code (fst (handleContentReport st e rq)) = 201"
  from c obtain ty tid rsn sv where f: "b_reason (rbody rq) = Some rsn"
    and ok: "contentReportSchema (newContentReport e rq ty tid (normalizeReason rsn)
         (orElse (b_additionalInfo (rbody rq)) rsn) (b_additionalInfo (rbody rq)) sv)"
    and s: "snd (handleContentReport st e rq) =
       st\<lparr>contentReports := contentReports st @
          [newContentReport e rq ty tid (normalizeReason rsn)
             (orElse (b_additionalInfo (rbody rq)) rsn) (b_additionalInfo (rbody rq)) sv]\<rparr>"
    by (rule handleContentReport_created)
  from ok have "normalizeReason rsn \<in> set reasonCodes"
    by (simp add: contentReportSchema_def newContentReport_def)
  with n f s normalizeReason_code [of rsn]
  show "\<exists>r rsn. contentReports (snd (handleContentReport st e rq)) = contentReports st @ [r]
          \<and> b_reason (rbody rq) = Some rsn
          \<and> reason r = rsn
          \<and> reportType r = normalizeReason rsn
          \<and> reportType r \<in> set reasonCodes
          \<and> (rsn \<in> set reasonCodes \<longrightarrow> reportType r = rsn)
          \<and> additionalInfo r = None"
    by (simp add: newContentReport_def orElse_def)
qed

lemma label_post:
  "handleContentReport exampleStore (envAt 1000 100) labelRequest =
     (Response 201 ''Content reported successfully'',
      exampleStore\<lparr>contentReports :=
        [newContentReport (envAt 1000 100) labelRequest ''post'' 10 ''inappropriate_content''
           ''Inappropriate content'' None ''medium'']\<rparr>)"
  by (simp add: labelRequest_def newContentReport_def handleContentReport_def truthy_def
      severityText_def targetExists_def normalizeReason_label reasonCodes_def contentTypes_def
      findOneContentReport_def exampleStore_def mkRequest_def contentBody_def emptyBody_def
      envAt_def Let_def contentReportSchema_def tiers_def statuses_def orElse_def)

text \<open>The theorem at one accepted submission on each route.\<close>

theorem omitted_additionalInfo_witness:
  "map reason (contentReports (snd (contentReportPost exampleStore (envAt 1000 100) selfHarmLow)))
     = [''No additional information provided'']
   \<and> map reportType (contentReports (snd (contentReportPost exampleStore (envAt 1000 100) selfHarmLow)))
     = [''self_harm'']
   \<and> map reason (contentReports (snd (handleContentReport exampleStore (envAt 1000 100) labelRequest)))
     = [''Inappropriate content'']
   \<and> map reportType (contentReports (snd (handleContentReport exampleStore (envAt 1000 100) labelRequest)))
     = [''inappropriate_content'']"
proof -
  have n: "contentReports exampleStore = []"
    by (simp add: exampleStore_def)
  have a: "b_additionalInfo (rbody selfHarmLow) = None
      \<and> code (fst (contentReportPost exampleStore (envAt 1000 100) selfHarmLow)) = 201"
    by (simp add: selfHarmLow_post) (simp add: selfHarmLow_def mkRequest_def contentBody_def emptyBody_def)
  have ra: "b_reason (rbody selfHarmLow) = Some ''self_harm''"
    by (simp add: selfHarmLow_def mkRequest_def contentBody_def)
  have b: "b_additionalInfo (rbody labelRequest) = None
      \<and> code (fst (handleContentReport exampleStore (envAt 1000 100) labelRequest)) = 201"
    by (simp add: label_post) (simp add: labelRequest_def mkRequest_def contentBody_def emptyBody_def)
  have rb: "b_reason (rbody labelRequest) = Some ''Inappropriate content''"
    by (simp add: labelRequest_def mkRequest_def contentBody_def)
  note t = omitted_additionalInfo
  from t [of selfHarmLow exampleStore "envAt 1000 100"] a
  obtain r where r: "contentReports (snd (contentReportPost exampleStore (envAt 1000 100) selfHarmLow))
      = contentReports exampleStore @ [r]" "reason r = ''No additional information provided''"
    "Some (reportType r) = b_reason (rbody selfHarmLow)"
    by blast
  from t [of labelRequest exampleStore "envAt 1000 100"] b
  obtain q rsn where q: "contentReports (snd (handleContentReport exampleStore (envAt 1000 100) labelRequest))
      = contentReports exampleStore @ [q]" "b_reason (rbody labelRequest) = Some rsn"
    "reason q = rsn" "reportType q = normalizeReason rsn"
    by blast
  from q(2) rb have "rsn = ''Inappropriate content''" by simp
  with r q n ra show ?thesis
    by (simp add: normalizeReason_label)
qed

section \<open>Self-reports\<close>

text \<open>
  A user report whose \<^verbatim>\<open>reportedUserId\<close> is the string \<^verbatim>\<open>req.user.id\<close> is answered 400 and
  nothing is stored.
\<close>

lemma self_report_rejected:
  assumes "b_reportedUserId (rbody rq) = Some (toHexString (user_id rq))"
  shows "code (fst (handleUserReport M st e rq)) = 400" and "snd (handleUserReport M st e rq) = st"
  using assms by (simp_all add: handleUserReport_def Let_def truthy_def split: option.splits)

text \<open>
  A user report whose \<^verbatim>\<open>reportedUserId\<close> is another string that Mongoose casts to the
  reporter's ObjectId passes the test: when the reporter is in the store, has not reported
  themselves before and the schema accepts the document, it is answered 201 and stored
  with the reporter as the reported user.
\<close>

lemma respelled_self_report_stored:
  assumes "b_reportedUserId (rbody rq) = Some raw" and "raw \<noteq> []"
    and "raw \<noteq> toHexString (user_id rq)" and "castObjectId M raw = Some (user_id rq)"
    and "b_reportType (rbody rq) = Some rt" and "rt \<noteq> []"
    and "b_reason (rbody rq) = Some rsn" and "rsn \<noteq> []"
    and "findUser st (user_id rq) \<noteq> None"
    and "findOneReport st (user_id rq) (user_id rq) = None"
    and "reportSchema M (newReport e rq (user_id rq) rt rsn)"
  shows "handleUserReport M st e rq =
     (Response 201 ''User reported successfully'',
      st\<lparr>reports := reports st @ [newReport e rq (user_id rq) rt rsn]\<rparr>)"
    and "rreporter (newReport e rq (user_id rq) rt rsn) =
         reportedUser (newReport e rq (user_id rq) rt rsn)"
proof -
  from handleUserReport_cast [OF assms(1,2,5,6,7,8,3,4,9), of e] assms(10,11)
  show "handleUserReport M st e rq =
     (Response 201 ''User reported successfully'',
      st\<lparr>reports := reports st @ [newReport e rq (user_id rq) rt rsn]\<rparr>)"
    by simp
  show "rreporter (newReport e rq (user_id rq) rt rsn) =
         reportedUser (newReport e rq (user_id rq) rt rsn)"
    by (simp add: newReport_def)
qed

lemma upper_fields:
  "b_reportedUserId (rbody upperRequest) = Some ''00000000000000000000000A''"
  "b_reportType (rbody upperRequest) = Some ''harassment''"
  "b_reason (rbody upperRequest) = Some ''abusive messages''"
  "b_type (rbody upperRequest) = None" "user_id upperRequest = 10"
  by (simp_all add: upperRequest_def mkRequest_def userBody_def emptyBody_def)

text \<open>
  C8 at its failing input. User 10, whose \<^verbatim>\<open>req.user.id\<close> is
  \<^verbatim>\<open>00000000000000000000000a\<close>, reports \<^verbatim>\<open>00000000000000000000000A\<close>. The same report
  with the identifier in lower case is answered 400 ``Cannot report yourself''; this one
  is answered 201, and the stored report has user 10 as its reporter and as its reported
  user.
\<close>

theorem upper_case_self_report_stored:
  "user_id upperRequest = 10
   \<and> toHexString 10 = ''00000000000000000000000a''
   \<and> b_reportedUserId (rbody upperRequest) = Some ''00000000000000000000000A''
   \<and> castObjectId exampleModels ''00000000000000000000000A'' = Some 10
   \<and> universalPost exampleModels letterStore (envAt 1000 100) selfRequest
       = (Response 400 ''Cannot report yourself'', letterStore)
   \<and> fst (universalPost exampleModels letterStore (envAt 1000 100) upperRequest)
       = Response 201 ''User reported successfully''
   \<and> map (\<lambda>r. (rreporter r, reportedUser r))
        (reports (snd (universalPost exampleModels letterStore (envAt 1000 100) upperRequest)))
       = [(10, 10)]"
proof -
  have s: "universalPost exampleModels letterStore (envAt 1000 100) selfRequest
       = (Response 400 ''Cannot report yourself'', letterStore)"
    unfolding selfRequest_def universalPost_userBody
    by (simp add: handleUserReport_def userBody_fields truthy_def text_nonempty)
  have d: "''00000000000000000000000A'' \<noteq> toHexString (user_id upperRequest)"
    by (simp add: upper_fields text_10)
  have f: "findUser letterStore (user_id upperRequest) \<noteq> None"
    and n: "findOneReport letterStore (user_id upperRequest) (user_id upperRequest) = None"
    and r: "reports letterStore = []"
    by (simp_all add: upper_fields findUser_def findOneReport_def letterStore_def exampleStore_def
        mkUser_def)
  have c: "castObjectId exampleModels ''00000000000000000000000A'' = Some (user_id upperRequest)"
    by (simp add: upper_fields cast_upper)
  have a: "reportSchema exampleModels
      (newReport (envAt 1000 100) upperRequest (user_id upperRequest) ''harassment'' ''abusive messages'')"
    by (rule exampleModels_accepts)
  have u: "universalPost exampleModels letterStore (envAt 1000 100) upperRequest
      = handleUserReport exampleModels letterStore (envAt 1000 100) upperRequest"
    by (simp add: universalPost_def upper_fields truthy_def)
  note h = respelled_self_report_stored [OF upper_fields(1) _ d c upper_fields(2) _ upper_fields(3) _ f n a]
  have h1: "handleUserReport exampleModels letterStore (envAt 1000 100) upperRequest =
     (Response 201 ''User reported successfully'',
      letterStore\<lparr>reports := reports letterStore @
        [newReport (envAt 1000 100) upperRequest (user_id upperRequest)
           ''harassment'' ''abusive messages'']\<rparr>)"
    by (rule h(1)) simp_all
  show ?thesis
    unfolding u h1 s
    by (simp add: upper_fields text_10 cast_upper r newReport_def)
qed

section \<open>Actions on a report\<close>

lemma putAction_ok:
  assumes "actionValid b" and "a_action b = Some a" and "a_details b = Some d"
    and "findUser st actor = Some u" and "\<not> notStaff u" and "findReport st i = Some r"
    and "takeAction M r a (trim d) actor (now e) = Some r'"
  shows "putAction M st e actor i b =
     (Response 200 ''Action taken successfully'',
      if a = ''temporary_ban'' \<or> a = ''permanent_ban''
      then findByIdAndUpdateUser (storeReport st i r') (reportedUser r') (banUntil e a)
      else storeReport st i r')"
  using assms by (simp add: putAction_def Let_def)

lemma putAction_200:
  assumes "code (fst (putAction M st e actor i b)) = 200"
  obtains a d u r r' where "actionValid b" "a_action b = Some a" "a_details b = Some d"
    "findUser st actor = Some u" "\<not> notStaff u" "findReport st i = Some r"
    "takeAction M r a (trim d) actor (now e) = Some r'"
proof -
  have v: "actionValid b"
    using assms by (auto simp: putAction_def split: if_splits)
  from assms v obtain a d u where f: "a_action b = Some a" "a_details b = Some d"
    "findUser st actor = Some u"
    by (cases "a_action b"; cases "a_details b"; cases "findUser st actor")
      (auto simp: putAction_def)
  from assms v f have n: "\<not> notStaff u"
    by (auto simp: putAction_def split: if_splits)
  from assms v f n obtain r where r: "findReport st i = Some r"
    by (cases "findReport st i") (auto simp: putAction_def)
  from assms v f n r obtain r' where "takeAction M r a (trim d) actor (now e) = Some r'"
    by (cases "takeAction M r a (trim d) actor (now e)") (auto simp: putAction_def)
  with v f n r that show thesis by blast
qed

lemma findByIdAndUpdateUser_reports: "reports (findByIdAndUpdateUser st i t) = reports st"
  by (simp add: findByIdAndUpdateUser_def)

lemma storeReport_fields [simp]:
  "users (storeReport st i r) = users st"
  "userUpdateCalls (storeReport st i r) = userUpdateCalls st"
  "reports (storeReport st i r) = map (\<lambda>x. if rid x = i then r else x) (reports st)"
  by (simp_all add: storeReport_def)

lemma findByIdAndUpdateUser_calls:
  "userUpdateCalls (findByIdAndUpdateUser st i t) = userUpdateCalls st @ [(i, ''suspended'', t)]"
  by (simp add: findByIdAndUpdateUser_def)

lemma putAction_ban_calls:
  assumes "code (fst (putAction M st e actor i b)) = 200" and "a_action b = Some a"
    and "a = ''temporary_ban'' \<or> a = ''permanent_ban''"
  shows "\<exists>x. userUpdateCalls (snd (putAction M st e actor i b)) =
           userUpdateCalls st @ [(x, ''suspended'', banUntil e a)]"
proof -
  from assms(1) obtain a' d u r r' where h: "actionValid b" "a_action b = Some a'"
    "a_details b = Some d" "findUser st actor = Some u" "\<not> notStaff u"
    "findReport st i = Some r" "takeAction M r a' (trim d) actor (now e) = Some r'"
    by (rule putAction_200)
  with assms(2) have "a' = a" by simp
  with putAction_ok [OF h] assms(3) show ?thesis
    by (auto simp: findByIdAndUpdateUser_calls)
qed

text \<open>
  C5, as the code has it. The handler keeps no idempotency key. Whatever
  \<^verbatim>\<open>report.takeAction\<close> does, every call with \<^verbatim>\<open>temporary_ban\<close> or \<^verbatim>\<open>permanent_ban\<close> that
  is answered 200 issues its own \<^verbatim>\<open>User.findByIdAndUpdate\<close>: after two identical calls
  that are both answered 200, two user updates have been issued.
\<close>

theorem repeated_ban_updates_user_twice:
  assumes "code (fst (putAction M st e actor i b)) = 200"
    and "code (fst (putAction M (snd (putAction M st e actor i b)) e' actor i b)) = 200"
    and "a_action b = Some a" and "a = ''temporary_ban'' \<or> a = ''permanent_ban''"
  shows "\<exists>x y. userUpdateCalls (snd (putAction M (snd (putAction M st e actor i b)) e' actor i b)) =
           userUpdateCalls st @ [(x, ''suspended'', banUntil e a), (y, ''suspended'', banUntil e' a)]"
proof -
  from putAction_ban_calls [OF assms(1,3,4)] obtain x
    where x: "userUpdateCalls (snd (putAction M st e actor i b)) =
           userUpdateCalls st @ [(x, ''suspended'', banUntil e a)]" ..
  from putAction_ban_calls [OF assms(2,3,4)] obtain y
    where "userUpdateCalls (snd (putAction M (snd (putAction M st e actor i b)) e' actor i b)) =
           userUpdateCalls (snd (putAction M st e actor i b)) @ [(y, ''suspended'', banUntil e' a)]" ..
  with x show ?thesis by simp
qed

lemma permanentBan_valid: "actionValid permanentBan"
  "a_action permanentBan = Some ''permanent_ban''"
  "a_details permanentBan = Some ''repeated harassment confirmed''"
  "trim ''repeated harassment confirmed'' = ''repeated harassment confirmed''"
proof -
  show t: "trim ''repeated harassment confirmed'' = ''repeated harassment confirmed''"
    by (rule trim_no_space) (simp_all add: isSpace_def)
  show "actionValid permanentBan"
    by (simp add: actionValid_def detailsOk_def isIn_def actions_def permanentBan_def t)
qed (simp_all add: permanentBan_def)

lemma admin_found: "users st = users exampleStore \<Longrightarrow> findUser st 9 = Some (mkUser 9 ''admin1'' ''admin'')"
  by (simp add: findUser_def exampleStore_def mkUser_def)

lemma admin_staff: "\<not> notStaff (mkUser 9 ''admin1'' ''admin'')"
  by (simp add: notStaff_def mkUser_def)

lemma harassment_fields:
  "reportedUser harassmentReport = 2" "rstatus harassmentReport = ''pending''"
  "ractionsTaken harassmentReport = []"
  by (simp_all add: harassmentReport_def newReport_def initialStatus_def)

lemma first_ban_taken:
  "takeAction exampleModels harassmentReport ''permanent_ban'' ''repeated harassment confirmed'' 9
     (now (envAt 2000 0)) = Some bannedReport"
  by (simp add: exampleModels_def specTakeAction_def actions_def harassment_fields terminal_def
      bannedReport_def envAt_def)

lemma second_ban_taken:
  "takeAction exampleModels bannedReport ''permanent_ban'' ''repeated harassment confirmed'' 9
     (now (envAt 3000 0)) = Some bannedReport"
  by (simp add: exampleModels_def specTakeAction_def actions_def bannedReport_def)

lemma bannedOnce_eq:
  "putAction exampleModels reportedStore (envAt 2000 0) 9 100 permanentBan =
     (Response 200 ''Action taken successfully'',
      findByIdAndUpdateUser (storeReport reportedStore 100 bannedReport) 2 None)"
proof -
  have u: "findUser reportedStore 9 = Some (mkUser 9 ''admin1'' ''admin'')"
    by (rule admin_found) (simp add: reportedStore_def)
  have t: "takeAction exampleModels harassmentReport ''permanent_ban''
      (trim ''repeated harassment confirmed'') 9 (now (envAt 2000 0)) = Some bannedReport"
    by (simp add: permanentBan_valid first_ban_taken)
  from putAction_ok [OF permanentBan_valid(1,2,3) u admin_staff harassment_found t]
  show ?thesis
    by (simp add: banUntil_def bannedReport_def harassment_fields)
qed

lemma bannedOnce_store:
  "bannedOnce = findByIdAndUpdateUser (storeReport reportedStore 100 bannedReport) 2 None"
  by (simp add: bannedOnce_def bannedOnce_eq)

lemma bannedOnce_found: "findReport bannedOnce 100 = Some bannedReport"
proof -
  have "rid bannedReport = 100"
    by (simp add: bannedReport_def harassment_rid)
  with harassment_found
  have "findReport (storeReport reportedStore 100 bannedReport) 100 = Some bannedReport"
    by (rule findReport_storeReport)
  then show ?thesis
    by (simp add: bannedOnce_store findReport_def findByIdAndUpdateUser_reports)
qed

lemma bannedTwice_eq:
  "putAction exampleModels bannedOnce (envAt 3000 0) 9 100 permanentBan =
     (Response 200 ''Action taken successfully'',
      findByIdAndUpdateUser (storeReport bannedOnce 100 bannedReport) 2 None)"
proof -
  have "findUser bannedOnce 9 = findUser reportedStore 9"
    by (simp add: bannedOnce_store findUser_def findByIdAndUpdateUser_def reportedStore_def
        exampleStore_def mkUser_def)
  moreover have "findUser reportedStore 9 = Some (mkUser 9 ''admin1'' ''admin'')"
    by (rule admin_found) (simp add: reportedStore_def)
  ultimately have u: "findUser bannedOnce 9 = Some (mkUser 9 ''admin1'' ''admin'')"
    by simp
  have t: "takeAction exampleModels bannedReport ''permanent_ban''
      (trim ''repeated harassment confirmed'') 9 (now (envAt 3000 0)) = Some bannedReport"
    by (simp add: permanentBan_valid second_ban_taken)
  from putAction_ok [OF permanentBan_valid(1,2,3) u admin_staff bannedOnce_found t]
  show ?thesis
    by (simp add: banUntil_def bannedReport_def harassment_fields)
qed

text \<open>
  C5 as stated fails, even with a \<^verbatim>\<open>report.takeAction\<close> that detects the repeat as the spec
  describes: the admin 9 bans the target of report 100 for good twice; both calls are
  answered 200, the report holds one entry, and two user updates have been issued.
\<close>

theorem identical_ban_issues_two_updates:
  "fst (putAction exampleModels reportedStore (envAt 2000 0) 9 100 permanentBan)
     = Response 200 ''Action taken successfully''
   \<and> fst (putAction exampleModels bannedOnce (envAt 3000 0) 9 100 permanentBan)
     = Response 200 ''Action taken successfully''
   \<and> map (length \<circ> ractionsTaken)
       (reports (snd (putAction exampleModels bannedOnce (envAt 3000 0) 9 100 permanentBan))) = [1]
   \<and> userUpdateCalls (snd (putAction exampleModels bannedOnce (envAt 3000 0) 9 100 permanentBan))
     = [(2, ''suspended'', None), (2, ''suspended'', None)]"
  unfolding bannedTwice_eq bannedOnce_eq
  by (simp add: bannedOnce_store findByIdAndUpdateUser_calls findByIdAndUpdateUser_reports
      reportedStore_def exampleStore_def harassment_rid)
    (simp add: bannedReport_def)

text \<open>The theorem at these two calls.\<close>

theorem repeated_ban_updates_user_twice_witness:
  "userUpdateCalls (snd (putAction exampleModels
       (snd (putAction exampleModels reportedStore (envAt 2000 0) 9 100 permanentBan))
       (envAt 3000 0) 9 100 permanentBan))
     = [(2, ''suspended'', None), (2, ''suspended'', None)]"
proof -
  have c1: "code (fst (putAction exampleModels reportedStore (envAt 2000 0) 9 100 permanentBan)) = 200"
    by (simp add: bannedOnce_eq)
  have c2: "code (fst (putAction exampleModels
       (snd (putAction exampleModels reportedStore (envAt 2000 0) 9 100 permanentBan))
       (envAt 3000 0) 9 100 permanentBan)) = 200"
    using bannedTwice_eq by (simp add: bannedOnce_def)
  from repeated_ban_updates_user_twice [OF c1 c2 permanentBan_valid(2)]
  obtain x y where xy: "userUpdateCalls (snd (putAction exampleModels
       (snd (putAction exampleModels reportedStore (envAt 2000 0) 9 100 permanentBan))
       (envAt 3000 0) 9 100 permanentBan))
     = userUpdateCalls reportedStore @
         [(x, ''suspended'', banUntil (envAt 2000 0) ''permanent_ban''),
          (y, ''suspended'', banUntil (envAt 3000 0) ''permanent_ban'')]"
    by auto
  have e: "snd (putAction exampleModels reportedStore (envAt 2000 0) 9 100 permanentBan) = bannedOnce"
    by (simp add: bannedOnce_def)
  have "userUpdateCalls (snd (putAction exampleModels bannedOnce (envAt 3000 0) 9 100 permanentBan))
     = [(2, ''suspended'', None), (2, ''suspended'', None)]"
    unfolding bannedTwice_eq
    by (simp add: bannedOnce_store findByIdAndUpdateUser_calls reportedStore_def exampleStore_def)
  with xy [unfolded e] show ?thesis unfolding e by simp
qed

section \<open>Bans\<close>

lemma findUser_updated:
  "findUser (findByIdAndUpdateUser st i t) i =
     map_option (\<lambda>u. u\<lparr>ustatus := ''suspended'',
                       suspendedUntil := (case t of None \<Rightarrow> suspendedUntil u | Some x \<Rightarrow> Some x)\<rparr>)
       (findUser st i)"
proof -
  have "find (\<lambda>u. uid u = i) (map (\<lambda>u. if uid u = i then f u else u) xs) =
      map_option f (find (\<lambda>u. uid u = i) xs)" if "\<And>u. uid (f u) = uid u" for f and xs :: "user list"
    using that by (induction xs) auto
  then show ?thesis
    by (simp add: findUser_def findByIdAndUpdateUser_def)
qed

lemma findUser_other:
  "i \<noteq> j \<Longrightarrow> findUser (findByIdAndUpdateUser st i t) j = findUser st j"
proof -
  have "find (\<lambda>u. uid u = j) (map (\<lambda>u. if uid u = i then f u else u) xs) =
      find (\<lambda>u. uid u = j) xs" if "i \<noteq> j" "\<And>u. uid (f u) = uid u" for f and xs :: "user list"
    using that by (induction xs) auto
  then show "i \<noteq> j \<Longrightarrow> findUser (findByIdAndUpdateUser st i t) j = findUser st j"
    by (simp add: findUser_def findByIdAndUpdateUser_def)
qed

lemma findUser_storeReport: "findUser (storeReport st i r) j = findUser st j"
  by (simp add: findUser_def)

lemma findReport_other:
  "i \<noteq> j \<Longrightarrow> rid r' \<noteq> j \<Longrightarrow> findReport (storeReport st i r') j = findReport st j"
proof -
  have "find (\<lambda>r. rid r = j) (map (\<lambda>r. if rid r = i then r' else r) xs) =
      find (\<lambda>r. rid r = j) xs" if "i \<noteq> j" "rid r' \<noteq> j" for xs :: "report list"
    using that by (induction xs) auto
  then show "i \<noteq> j \<Longrightarrow> rid r' \<noteq> j \<Longrightarrow> findReport (storeReport st i r') j = findReport st j"
    by (simp add: findReport_def)
qed

lemma findReport_update: "findReport (findByIdAndUpdateUser st i t) j = findReport st j"
  by (simp add: findReport_def findByIdAndUpdateUser_reports)

text \<open>
  What the action handler does to the reported user on a ban that is answered 200: the
  status becomes suspended; a temporary ban sets the expiry seven days after the clock,
  a permanent ban leaves the stored expiry as it is.
\<close>

lemma ban_applied:
  assumes "actionValid b" and "a_action b = Some a" and "a_details b = Some d"
    and "findUser st actor = Some u" and "\<not> notStaff u" and "findReport st i = Some r"
    and "takeAction M r a (trim d) actor (now e) = Some r'"
    and "a = ''temporary_ban'' \<or> a = ''permanent_ban''"
  shows "findUser (snd (putAction M st e actor i b)) (reportedUser r') =
     map_option (\<lambda>u. u\<lparr>ustatus := ''suspended'',
                       suspendedUntil :=
                         (if a = ''temporary_ban'' then Some (now e + 604800000)
                          else suspendedUntil u)\<rparr>)
       (findUser st (reportedUser r'))"
proof -
  have "banUntil e a = (if a = ''temporary_ban'' then Some (now e + 604800000) else None)"
    by (simp add: banUntil_def)
  with putAction_ok [OF assms(1-7)] assms(8) show ?thesis
    by (auto simp: findUser_updated findUser_storeReport intro!: arg_cong [where f = "\<lambda>f. map_option f _"])
qed

lemma temporaryBan_valid: "actionValid temporaryBan"
  "a_action temporaryBan = Some ''temporary_ban''"
  "a_details temporaryBan = Some ''first offence, one week''"
  "trim ''first offence, one week'' = ''first offence, one week''"
proof -
  show t: "trim ''first offence, one week'' = ''first offence, one week''"
    by (rule trim_no_space) (simp_all add: isSpace_def)
  show "actionValid temporaryBan"
    by (simp add: actionValid_def detailsOk_def isIn_def actions_def temporaryBan_def t)
qed (simp_all add: temporaryBan_def)

lemma second_fields:
  "rid secondReport = 101" "reportedUser secondReport = 2" "rstatus secondReport = ''pending''"
  "ractionsTaken secondReport = []"
  by (simp_all add: secondReport_def newReport_def initialStatus_def envAt_def)

lemma second_submitted:
  "universalPost exampleModels reportedStore (envAt 1500 101) secondRequest =
     (Response 201 ''User reported successfully'', twoReportsStore)"
  unfolding secondRequest_def universalPost_userBody
  by (subst handleUserReport_example)
    (simp_all add: findUser_def findOneReport_def exampleStore_def mkUser_def exampleModels_def
      reportedStore_def twoReportsStore_def secondReport_def secondRequest_def
      harassmentReport_def harassmentRequest_def newReport_def userBody_fields)

lemma user2_found: "findUser twoReportsStore 2 = Some (mkUser 2 ''u2'' ''user'')"
  by (simp add: findUser_def twoReportsStore_def exampleStore_def mkUser_def)

lemma two_found:
  "findReport twoReportsStore 100 = Some harassmentReport"
  "findReport twoReportsStore 101 = Some secondReport"
  by (simp_all add: findReport_def twoReportsStore_def harassment_rid second_fields)

lemma temporary_taken:
  "\<exists>r'. takeAction exampleModels harassmentReport ''temporary_ban''
       (trim ''first offence, one week'') 9 (now (envAt 2000 0)) = Some r'
     \<and> rid r' = 100 \<and> reportedUser r' = 2"
  by (simp add: temporaryBan_valid exampleModels_def specTakeAction_def actions_def
      harassment_fields terminal_def harassment_rid)

lemma permanent_taken:
  "\<exists>r'. takeAction exampleModels secondReport ''permanent_ban''
       (trim ''repeated harassment confirmed'') 9 (now (envAt 3000 0)) = Some r'
     \<and> rid r' = 101 \<and> reportedUser r' = 2"
  by (simp add: permanentBan_valid exampleModels_def specTakeAction_def actions_def
      second_fields terminal_def)

text \<open>
  C4 at its failing input. User 2 is banned for a week on report 100 at time 2000 (expiry
  604802000) and then for good on report 101 at time 3000. Both calls are answered 200;
  after the permanent ban the user is suspended and still carries the expiry of the
  temporary ban, since the update of a permanent ban names no expiry.
\<close>

theorem permanent_ban_keeps_expiry:
  "snd (universalPost exampleModels reportedStore (envAt 1500 101) secondRequest) = twoReportsStore
   \<and> fst (putAction exampleModels twoReportsStore (envAt 2000 0) 9 100 temporaryBan)
       = Response 200 ''Action taken successfully''
   \<and> map_option suspendedUntil (findUser afterTemporaryBan 2) = Some (Some 604802000)
   \<and> fst (putAction exampleModels afterTemporaryBan (envAt 3000 0) 9 101 permanentBan)
       = Response 200 ''Action taken successfully''
   \<and> map_option ustatus (findUser afterPermanentBan 2) = Some ''suspended''
   \<and> map_option suspendedUntil (findUser afterPermanentBan 2) = Some (Some 604802000)"
proof -
  let ?admin = "mkUser 9 ''admin1'' ''admin''"
  from temporary_taken obtain r1 where t1: "takeAction exampleModels harassmentReport
      ''temporary_ban'' (trim ''first offence, one week'') 9 (now (envAt 2000 0)) = Some r1"
    and r1: "rid r1 = 100" "reportedUser r1 = 2"
    by blast
  from permanent_taken obtain r2 where t2: "takeAction exampleModels secondReport
      ''permanent_ban'' (trim ''repeated harassment confirmed'') 9 (now (envAt 3000 0)) = Some r2"
    and r2: "rid r2 = 101" "reportedUser r2 = 2"
    by blast
  have u0: "findUser twoReportsStore 9 = Some ?admin"
    by (rule admin_found) (simp add: twoReportsStore_def)
  note ok1 = putAction_ok [OF temporaryBan_valid(1,2,3) u0 admin_staff two_found(1) t1]
  have b1: "banUntil (envAt 2000 0) ''temporary_ban'' = Some 604802000"
    and b2: "banUntil (envAt 3000 0) ''permanent_ban'' = None"
    by (simp_all add: banUntil_def envAt_def)
  have s1: "afterTemporaryBan =
      findByIdAndUpdateUser (storeReport twoReportsStore 100 r1) 2 (Some 604802000)"
    by (simp add: afterTemporaryBan_def ok1 r1 b1)
  have c1: "fst (putAction exampleModels twoReportsStore (envAt 2000 0) 9 100 temporaryBan)
       = Response 200 ''Action taken successfully''"
    by (simp add: ok1)
  have x1: "findUser afterTemporaryBan 2 =
      Some ((mkUser 2 ''u2'' ''user'')\<lparr>ustatus := ''suspended'', suspendedUntil := Some 604802000\<rparr>)"
    by (simp add: s1 findUser_updated findUser_storeReport user2_found)
  have u1: "findUser afterTemporaryBan 9 = Some ?admin"
    by (simp add: s1 findUser_other findUser_storeReport u0)
  have f1: "findReport afterTemporaryBan 101 = Some secondReport"
    by (simp add: s1 findReport_update findReport_other r1 two_found)
  note ok2 = putAction_ok [OF permanentBan_valid(1,2,3) u1 admin_staff f1 t2]
  have s2: "afterPermanentBan = findByIdAndUpdateUser (storeReport afterTemporaryBan 101 r2) 2 None"
    by (simp add: afterPermanentBan_def ok2 r2 b2)
  have c2: "fst (putAction exampleModels afterTemporaryBan (envAt 3000 0) 9 101 permanentBan)
       = Response 200 ''Action taken successfully''"
    by (simp add: ok2)
  have x2: "findUser afterPermanentBan 2 =
      Some ((mkUser 2 ''u2'' ''user'')\<lparr>ustatus := ''suspended'', suspendedUntil := Some 604802000\<rparr>)"
    by (simp add: s2 findUser_updated findUser_storeReport x1)
  from c1 c2 x1 x2 show ?thesis
    by (simp add: second_submitted)
qed

end
